theory Spec2Isabelle
  imports Main "HOL-Library.Word"
begin

section \<open>JavaScript values\<close>

text \<open>
  The three handlers (\<^verbatim>\<open>src/api/summary.js\<close>, \<^verbatim>\<open>src/api/actions.js\<close>,
  \<^verbatim>\<open>src/api/annotate.js\<close>) are embedded function by function. A JavaScript string is
  its sequence of UTF-16 code units, which is what \<^verbatim>\<open>trim\<close>, \<^verbatim>\<open>replace\<close> and
  \<^verbatim>\<open>substring\<close> work on.
\<close>

type_synonym jschar = "16 word"
type_synonym jsstring = "jschar list"

definition utf16 :: "string \<Rightarrow> jsstring" where
  \<comment> \<open>an ASCII literal as code units\<close>
  "utf16 s = map (\<lambda>c. of_nat (of_char c)) s"

text \<open>
  The values that flow through the handlers: JSON data of the two remote services, the
  \<^verbatim>\<open>undefined\<close> of a function that returns nothing, and the \<^verbatim>\<open>Response\<close> objects that
  \<^verbatim>\<open>annotate.js\<close> returns from its catch blocks (only the status is kept). Numbers are the
  integer-valued ones; an object is the list of its own properties.
\<close>

datatype jsval =
    Undefined
  | Null
  | Bool bool
  | Num int
  | Str jsstring
  | Arr "jsval list"
  | Obj "(jsstring \<times> jsval) list"
  | Response nat

datatype error =
    TypeError                \<comment> \<open>property of undefined/null, call of a non-function\<close>
  | SyntaxError              \<comment> \<open>\<^verbatim>\<open>JSON.parse\<close>, \<^verbatim>\<open>response.json()\<close>, \<^verbatim>\<open>req.json()\<close>\<close>
  | FetchFailed              \<comment> \<open>\<^verbatim>\<open>fetch\<close> rejects: no HTTP response\<close>
  | HttpError nat            \<comment> \<open>\<^verbatim>\<open>HTTP error! status: ...\<close>\<close>
  | GraphQLError jsval       \<comment> \<open>\<^verbatim>\<open>GraphQL error: ...\<close>\<close>
  | APIError                 \<comment> \<open>\<^verbatim>\<open>chat.completions.create\<close> rejects\<close>
  | NoCompletion jsval       \<comment> \<open>\<^verbatim>\<open>No completion returned from OpenAI for prompt ...\<close>\<close>
  | RequiredError            \<comment> \<open>\<^verbatim>\<open>Prompt, completions, and article content are required.\<close>\<close>
  | ApiKeyError              \<comment> \<open>\<^verbatim>\<open>API key is not defined\<close>\<close>
  | OpenAIError              \<comment> \<open>\<^verbatim>\<open>new OpenAI()\<close> without credentials\<close>

fun truthy :: "jsval \<Rightarrow> bool" where
  "truthy Undefined = False"
| "truthy Null = False"
| "truthy (Bool b) = b"
| "truthy (Num n) = (n \<noteq> 0)"
| "truthy (Str s) = (s \<noteq> [])"
| "truthy (Arr xs) = True"
| "truthy (Obj kvs) = True"
| "truthy (Response st) = True"

text \<open>
  \<^verbatim>\<open>v.k\<close> for the property names the handlers read (\<^verbatim>\<open>errors\<close>, \<^verbatim>\<open>data\<close>,
  \<^verbatim>\<open>article\<close>, \<^verbatim>\<open>content\<close>, \<^verbatim>\<open>createHighlight\<close>, \<^verbatim>\<open>page\<close>, \<^verbatim>\<open>id\<close>, ...), none of
  which a prototype defines: a TypeError on \<^verbatim>\<open>undefined\<close> and \<^verbatim>\<open>null\<close>, the own property
  of an object, \<^verbatim>\<open>undefined\<close> otherwise. \<^verbatim>\<open>v?.k\<close> gives \<^verbatim>\<open>undefined\<close> where \<^verbatim>\<open>v.k\<close>
  throws.
\<close>

fun get_prop :: "jsval \<Rightarrow> jsstring \<Rightarrow> error + jsval" where
  "get_prop Undefined k = Inl TypeError"
| "get_prop Null k = Inl TypeError"
| "get_prop (Obj kvs) k = Inr (case map_of kvs k of None \<Rightarrow> Undefined | Some v \<Rightarrow> v)"
| "get_prop v k = Inr Undefined"

definition opt_prop :: "jsval \<Rightarrow> jsstring \<Rightarrow> jsval" where
  "opt_prop v k = (case get_prop v k of Inl e \<Rightarrow> Undefined | Inr x \<Rightarrow> x)"

text \<open>\<^verbatim>\<open>id.substring(0, 8)\<close>: only a string has the method.\<close>

fun substring_0_8 :: "jsval \<Rightarrow> error + jsval" where
  "substring_0_8 (Str s) = Inr (Str (take 8 s))"
| "substring_0_8 v = Inl TypeError"

text \<open>\<^verbatim>\<open>Array.prototype.join\<close> and the \<^verbatim>\<open>String(v)\<close> conversion it applies to the elements.\<close>

fun js_join :: "jsstring \<Rightarrow> jsstring list \<Rightarrow> jsstring" where
  "js_join sep [] = []"
| "js_join sep [x] = x"
| "js_join sep (x # y # ys) = x @ sep @ js_join sep (y # ys)"

function show_nat :: "nat \<Rightarrow> jsstring" where
  "show_nat n =
     (if n < 10 then [of_nat (48 + n)] else show_nat (n div 10) @ [of_nat (48 + n mod 10)])"
  by pat_completeness auto
termination
  by (relation "measure id") auto

fun to_string :: "jsval \<Rightarrow> jsstring" where
  "to_string Undefined = utf16 ''undefined''"
| "to_string Null = utf16 ''null''"
| "to_string (Bool b) = (if b then utf16 ''true'' else utf16 ''false'')"
| "to_string (Num n) = (if n < 0 then utf16 ''-'' @ show_nat (nat (- n)) else show_nat (nat n))"
| "to_string (Str s) = s"
| "to_string (Arr xs) =
     js_join (utf16 '','')
       (map (\<lambda>x. if x = Undefined \<or> x = Null then [] else to_string x) xs)"
| "to_string (Obj kvs) = utf16 ''[object Object]''"
| "to_string (Response st) = utf16 ''[object Response]''"

definition array_join :: "jsval list \<Rightarrow> jsstring \<Rightarrow> jsstring" where
  "array_join xs sep =
     js_join sep (map (\<lambda>x. if x = Undefined \<or> x = Null then [] else to_string x) xs)"

section \<open>trimAnnotation\<close>

text \<open>
  \<^verbatim>\<open>annotation.trim().replace(/"/g, '\\"').replace(/\\/g, '\\\\')\<close>, the same text in
  the three files. \<^verbatim>\<open>trim\<close> removes the WhiteSpace and LineTerminator code units of
  ECMAScript from both ends; a global single-character regex replaces each occurrence, left
  to right, by the replacement string (neither replacement contains a \<^verbatim>\<open>$\<close> pattern).
\<close>

definition js_whitespace :: "jschar \<Rightarrow> bool" where
  "js_whitespace c \<longleftrightarrow>
     c \<in> set [0x0009, 0x000A, 0x000B, 0x000C, 0x000D, 0x0020, 0x00A0, 0x1680,
              0x2000, 0x2001, 0x2002, 0x2003, 0x2004, 0x2005, 0x2006, 0x2007,
              0x2008, 0x2009, 0x200A, 0x2028, 0x2029, 0x202F, 0x205F, 0x3000, 0xFEFF]"

definition js_trim :: "jsstring \<Rightarrow> jsstring" where
  "js_trim s = rev (dropWhile js_whitespace (rev (dropWhile js_whitespace s)))"

definition quote :: jschar where
  "quote = 0x22"

definition backslash :: jschar where
  "backslash = 0x5C"

fun replace_all :: "jschar \<Rightarrow> jsstring \<Rightarrow> jsstring \<Rightarrow> jsstring" where
  "replace_all c r [] = []"
| "replace_all c r (x # xs) =
     (if x = c then r @ replace_all c r xs else x # replace_all c r xs)"

definition trimAnnotation :: "jsstring \<Rightarrow> jsstring" where
  "trimAnnotation annotation =
     replace_all backslash [backslash, backslash]
       (replace_all quote [backslash, quote] (js_trim annotation))"

section \<open>The outside world\<close>

text \<open>
  Everything a handler does to the outside is recorded, in order, in a trace: the HTTP
  requests to the article store and to the next stage, the chat-completion requests, the
  timers, the identifiers drawn from \<^verbatim>\<open>uuidv4\<close> and the console lines. A request is
  recorded by its operation and variables (the query texts and the headers are fixed); a
  completion request by the parsed settings and the pair interpolated into its one user
  message.
\<close>

datatype request =
    ArticleQuery jsval                       \<comment> \<open>\<^verbatim>\<open>buildGetQuery(articleId)\<close>\<close>
  | CreateHighlight jsval jsval jsval jsval  \<comment> \<open>id, shortId, articleId, annotation\<close>
  | Handoff jsstring jsval                   \<comment> \<open>POST of a JSON body to the next stage's URL\<close>

datatype fetch_result =
    NoResponse                       \<comment> \<open>\<^verbatim>\<open>fetch\<close> rejects\<close>
  | HttpResponse nat "jsval option"  \<comment> \<open>status; what \<^verbatim>\<open>response.json()\<close> gives, if it parses\<close>

definition response_ok :: "nat \<Rightarrow> bool" where
  "response_ok status \<longleftrightarrow> 200 \<le> status \<and> status \<le> 299"

text \<open>
  The completion as the provider's client types it: the \<^verbatim>\<open>message.content\<close> of each
  choice, a string or \<^verbatim>\<open>null\<close>.
\<close>

datatype create_result =
    CreateRejected
  | ChatCompletion "jsstring option list"

datatype msg =
    PromptRequired
  | ErrorFetchingCompletion error
  | ErrorFetchingArticle error
  | ErrorAddingAnnotation jsval error
  | NoPayloadFound
  | Retrying nat
  | HttpErrorStatus nat
  | GraphQLErrors jsval
  | GetArticleQuery jsval
  | ResponseLine fetch_result
  | DataLine jsval
  | ArticleContentLine jsval
  | GettingCompletion jsval
  | CompletionReceived jsstring
  | GettingBestCompletion jsval
  | ArrayCompletionsReceived jsstring
  | AddingAnnotation jsval jsval
  | AddAnnotationQuery request
  | AnnotationAdded jsval
  | StartingActionAnnotation
  | IdLine jsval

datatype event =
    Fetch request
  | ChatCreate jsval jsval jsval   \<comment> \<open>settings, prompt, articleContent\<close>
  | SetTimeout nat                 \<comment> \<open>milliseconds\<close>
  | UuidV4 jsstring
  | Console_log msg
  | Console_error msg

type_synonym world = "event list"

fun is_fetch :: "event \<Rightarrow> bool" where
  "is_fetch (Fetch r) = True"
| "is_fetch e = False"

fun is_create :: "event \<Rightarrow> bool" where
  "is_create (ChatCreate s p a) = True"
| "is_create e = False"

fun is_uuid :: "event \<Rightarrow> bool" where
  "is_uuid (UuidV4 u) = True"
| "is_uuid e = False"

definition fetch_count :: "world \<Rightarrow> nat" where
  "fetch_count w = length (filter is_fetch w)"

definition create_count :: "world \<Rightarrow> nat" where
  "create_count w = length (filter is_create w)"

definition uuid_count :: "world \<Rightarrow> nat" where
  "uuid_count w = length (filter is_uuid w)"

text \<open>
  The environment answers: the reply to the k-th \<^verbatim>\<open>fetch\<close> and to the k-th completion
  request of an invocation, the k-th value of \<^verbatim>\<open>uuidv4()\<close>, and the process
  configuration. \<^verbatim>\<open>settings_json\<close> is \<^verbatim>\<open>JSON.parse\<close> of the settings string the \<^verbatim>\<open>AI\<close>
  constructor selects (\<^verbatim>\<open>OPENAI_SETTINGS\<close>, or the default built from the model name),
  \<^verbatim>\<open>None\<close> when that string is not JSON.
\<close>

record env =
  fetch_reply :: "nat \<Rightarrow> request \<Rightarrow> fetch_result"
  create_reply :: "nat \<Rightarrow> jsval \<Rightarrow> jsval \<Rightarrow> jsval \<Rightarrow> create_result"
  uuidv4 :: "nat \<Rightarrow> jsstring"
  OMNIVORE_API_KEY :: "jsstring option"
  openai_configured :: bool
  settings_json :: "jsval option"

text \<open>An \<^verbatim>\<open>await\<close>: a rejection leaves the rest of the function unrun.\<close>

definition await ::
  "('s \<Rightarrow> (error + 'a) \<times> 's) \<Rightarrow> ('a \<Rightarrow> 's \<Rightarrow> (error + 'b) \<times> 's) \<Rightarrow> 's \<Rightarrow> (error + 'b) \<times> 's"
where
  "await m f s = (case m s of (Inl e, s') \<Rightarrow> (Inl e, s') | (Inr x, s') \<Rightarrow> f x s')"

definition do_fetch :: "env \<Rightarrow> request \<Rightarrow> world \<Rightarrow> fetch_result \<times> world" where
  "do_fetch env r w = (fetch_reply env (fetch_count w) r, w @ [Fetch r])"

section \<open>class AI\<close>

record ai =
  settings :: "jsval option"

definition new_AI :: "env \<Rightarrow> error + ai" where
  "new_AI env =
     (if openai_configured env then Inr \<lparr>settings = settings_json env\<rparr> else Inl OpenAIError)"

text \<open>
  \<^verbatim>\<open>getCompletion\<close> of \<^verbatim>\<open>summary.js\<close> (\<^verbatim>\<open>actions.js\<close> has the same text): first the body
  of its \<^verbatim>\<open>try\<close> block, then the method with its guard and its \<^verbatim>\<open>catch\<close>.
\<close>

definition getCompletion_try ::
  "ai \<Rightarrow> env \<Rightarrow> jsval \<Rightarrow> jsval \<Rightarrow> world \<Rightarrow> (error + jsval) \<times> world"
where
  "getCompletion_try this env prompt articleContent w =
     (case settings this of
        None \<Rightarrow> (Inl SyntaxError, w)
      | Some cfg \<Rightarrow>
          (let w1 = w @ [ChatCreate cfg prompt articleContent] in
           case create_reply env (create_count w) cfg prompt articleContent of
             CreateRejected \<Rightarrow> (Inl APIError, w1)
           | ChatCompletion choices \<Rightarrow>
               if length choices \<le> 0 \<or> (case choices of [] \<Rightarrow> False | c # cs \<Rightarrow> c = Some [])
               then (Inl (NoCompletion prompt), w1)
               else (case choices of
                       Some content # cs \<Rightarrow> (Inr (Str (trimAnnotation content)), w1)
                     | _ \<Rightarrow> (Inl TypeError, w1))))"

definition summary_getCompletion ::
  "ai \<Rightarrow> env \<Rightarrow> jsval \<Rightarrow> jsval \<Rightarrow> world \<Rightarrow> (error + jsval) \<times> world"
where
  "summary_getCompletion this env prompt articleContent w =
     (let w1 = (if \<not> truthy prompt \<or> \<not> truthy articleContent
                then w @ [Console_error PromptRequired] else w)
      in case getCompletion_try this env prompt articleContent w1 of
           (Inr v, w2) \<Rightarrow> (Inr v, w2)
         | (Inl e, w2) \<Rightarrow> (Inr Undefined, w2 @ [Console_error (ErrorFetchingCompletion e)]))"

text \<open>
  \<^verbatim>\<open>getCompletion\<close> of \<^verbatim>\<open>annotate.js\<close>: the guard returns a 400 \<^verbatim>\<open>Response\<close> object and
  the \<^verbatim>\<open>catch\<close> a 500 one. Its \<^verbatim>\<open>try\<close> block is the one above with one more line, which
  prints the text it is about to return.
\<close>

definition annotate_getCompletion_try ::
  "ai \<Rightarrow> env \<Rightarrow> jsval \<Rightarrow> jsval \<Rightarrow> world \<Rightarrow> (error + jsval) \<times> world"
where
  "annotate_getCompletion_try this env prompt articleContent w =
     (case getCompletion_try this env prompt articleContent w of
        (Inr (Str text), w1) \<Rightarrow> (Inr (Str text), w1 @ [Console_log (CompletionReceived text)])
      | r \<Rightarrow> r)"

definition annotate_getCompletion ::
  "ai \<Rightarrow> env \<Rightarrow> jsval \<Rightarrow> jsval \<Rightarrow> world \<Rightarrow> (error + jsval) \<times> world"
where
  "annotate_getCompletion this env prompt articleContent w =
     (let w1 = w @ [Console_log (GettingCompletion prompt)] in
      if \<not> truthy prompt \<or> \<not> truthy articleContent then (Inr (Response 400), w1)
      else case annotate_getCompletion_try this env prompt articleContent w1 of
             (Inr v, w2) \<Rightarrow> (Inr v, w2)
           | (Inl e, w2) \<Rightarrow> (Inr (Response 500), w2 @ [Console_error (ErrorFetchingCompletion e)]))"

text \<open>
  \<^verbatim>\<open>Promise.all\<close> over the promises of the calls: the calls are started in index order and
  the k-th request gets the environment's k-th reply, so the results are those of running
  the calls one after the other; the trace lists each call's events together. Every call
  runs to its end; the first rejection, if any, is the result.
\<close>

fun promise_all :: "('s \<Rightarrow> (error + 'a) \<times> 's) list \<Rightarrow> 's \<Rightarrow> (error + 'a list) \<times> 's" where
  "promise_all [] s = (Inr [], s)"
| "promise_all (m # ms) s =
     (case m s of (r, s1) \<Rightarrow>
        (case promise_all ms s1 of (rs, s2) \<Rightarrow>
           ((case r of
               Inl e \<Rightarrow> Inl e
             | Inr x \<Rightarrow> (case rs of Inl e \<Rightarrow> Inl e | Inr xs \<Rightarrow> Inr (x # xs))), s2)))"

definition newline :: jsstring where
  "newline = [0x0A]"

text \<open>
  An array is the list of its slots: \<^verbatim>\<open>[0, , 2]\<close> has a hole in the middle and
  \<^verbatim>\<open>Array(3)\<close> has three. \<^verbatim>\<open>Array.prototype.map\<close> calls its callback for the slots that
  hold an element and leaves the holes as holes; \<^verbatim>\<open>Promise.all\<close> reads a hole as
  \<^verbatim>\<open>undefined\<close>, which it resolves to \<^verbatim>\<open>undefined\<close>.
\<close>

type_synonym jsarray = "jsval option list"

definition array_map :: "('a \<Rightarrow> 'b) \<Rightarrow> 'a option list \<Rightarrow> 'b option list" where
  "array_map f xs = map (map_option f) xs"

definition element_promise ::
  "('s \<Rightarrow> (error + jsval) \<times> 's) option \<Rightarrow> 's \<Rightarrow> (error + jsval) \<times> 's"
where
  "element_promise slot s = (case slot of None \<Rightarrow> (Inr Undefined, s) | Some p \<Rightarrow> p s)"

text \<open>
  \<^verbatim>\<open>getBestCompletionOutOf\<close> of \<^verbatim>\<open>summary.js\<close> and \<^verbatim>\<open>actions.js\<close>. The method calls
  \<^verbatim>\<open>this.getCompletion\<close>, which is its first argument here, and the files differ in the
  module constant \<^verbatim>\<open>REFINEMENT_PROMPT\<close>, its second. \<^verbatim>\<open>completions\<close> is an array, or
  \<^verbatim>\<open>None\<close> for an argument that is \<^verbatim>\<open>undefined\<close> or \<^verbatim>\<open>null\<close>.
\<close>

definition getBestCompletionOutOf ::
  "(jsval \<Rightarrow> jsval \<Rightarrow> 's \<Rightarrow> (error + jsval) \<times> 's) \<Rightarrow> jsstring \<Rightarrow>
   jsval \<Rightarrow> jsarray option \<Rightarrow> jsval \<Rightarrow> 's \<Rightarrow> (error + jsval) \<times> 's"
where
  "getBestCompletionOutOf getCompletion REFINEMENT_PROMPT prompt completions articleContent s =
     (case completions of
        None \<Rightarrow> (Inl RequiredError, s)
      | Some cs \<Rightarrow>
          if \<not> truthy prompt \<or> length cs \<le> 0 \<or> \<not> truthy articleContent
          then (Inl RequiredError, s)
          else await (promise_all (map element_promise
                        (array_map (\<lambda>c. getCompletion prompt articleContent) cs)))
                 (\<lambda>completionContents.
                    getCompletion (Str REFINEMENT_PROMPT)
                      (Str (array_join completionContents newline))) s)"

definition summary_REFINEMENT_PROMPT :: jsstring where
  "summary_REFINEMENT_PROMPT = utf16
     (''Review the following completions. Select and refine the best one for clarity and '' @
      ''Obsidian compatibility. Do not add new headings or indicate it has been refined, '' @
      ''and do not shorten or remove the summary - just fix errors and make it more '' @
      ''compatible with Obsidian. Make sure all names and concepts are marked up as '' @
      ''Obsidian links and also make sure all mentions of books are formated like this:  '' @
      ''[[<bookTitle> av <author> | <bookTitle>]] - example: [[Bilbo av Tolkien | Bilbo]].'')"

definition summary_getBestCompletionOutOf ::
  "ai \<Rightarrow> env \<Rightarrow> jsval \<Rightarrow> jsarray option \<Rightarrow> jsval \<Rightarrow> world \<Rightarrow> (error + jsval) \<times> world"
where
  "summary_getBestCompletionOutOf this env =
     getBestCompletionOutOf (summary_getCompletion this env) summary_REFINEMENT_PROMPT"

text \<open>\<^verbatim>\<open>getBestCompletionOutOf\<close> of \<^verbatim>\<open>annotate.js\<close>, with its console lines.\<close>

definition annotate_REFINEMENT_PROMPT :: jsstring where
  "annotate_REFINEMENT_PROMPT = utf16
     (''Review the following completions and select and refine the best one based upon '' @
      ''the clarity, Obsidian compatibility, and actionability. Dont add new headings or '' @
      ''any text marking it'' @ [CHR 0x27] @ ''s a refined version of the completion.'')"

definition annotate_getBestCompletionOutOf ::
  "ai \<Rightarrow> env \<Rightarrow> jsval \<Rightarrow> jsarray option \<Rightarrow> jsval \<Rightarrow> world \<Rightarrow> (error + jsval) \<times> world"
where
  "annotate_getBestCompletionOutOf this env prompt completions articleContent w =
     (let w1 = w @ [Console_log (GettingBestCompletion prompt)] in
      case completions of
        None \<Rightarrow> (Inl RequiredError, w1)
      | Some cs \<Rightarrow>
          if \<not> truthy prompt \<or> length cs \<le> 0 \<or> \<not> truthy articleContent
          then (Inl RequiredError, w1)
          else await (promise_all (map element_promise
                        (array_map (\<lambda>c. annotate_getCompletion this env prompt articleContent) cs)))
                 (\<lambda>completionContents w2.
                    annotate_getCompletion this env (Str annotate_REFINEMENT_PROMPT)
                      (Str (array_join completionContents newline))
                      (w2 @ [Console_log
                               (ArrayCompletionsReceived (array_join completionContents newline))]))
                 w1)"

section \<open>class Omnivore\<close>

record omnivore =
  apiKey :: jsstring

definition new_Omnivore :: "env \<Rightarrow> error + omnivore" where
  "new_Omnivore env =
     (case OMNIVORE_API_KEY env of
        None \<Rightarrow> Inl ApiKeyError
      | Some k \<Rightarrow> if k = [] then Inl ApiKeyError else Inr \<lparr>apiKey = k\<rparr>)"

text \<open>
  The error thrown on a truthy \<^verbatim>\<open>data.errors\<close>: building its message maps over the
  array and reads \<^verbatim>\<open>e.message\<close>, which is itself a TypeError when \<^verbatim>\<open>errors\<close> is not an
  array or holds a \<^verbatim>\<open>null\<close>.
\<close>

definition graphql_error :: "jsval \<Rightarrow> error" where
  "graphql_error errs =
     (case errs of
        Arr es \<Rightarrow> if list_all (\<lambda>e. e \<noteq> Undefined \<and> e \<noteq> Null) es then GraphQLError errs
                  else TypeError
      | _ \<Rightarrow> TypeError)"

definition then_prop :: "error + jsval \<Rightarrow> jsstring \<Rightarrow> error + jsval" where
  "then_prop r k = (case r of Inl e \<Rightarrow> Inl e | Inr v \<Rightarrow> get_prop v k)"

definition content_opt :: "jsval \<Rightarrow> jsval" where
  \<comment> \<open>\<^verbatim>\<open>data?.data?.article?.article?.content\<close>\<close>
  "content_opt data =
     opt_prop (opt_prop (opt_prop (opt_prop data (utf16 ''data'')) (utf16 ''article''))
       (utf16 ''article'')) (utf16 ''content'')"

definition content_get :: "jsval \<Rightarrow> error + jsval" where
  \<comment> \<open>\<^verbatim>\<open>data.data.article.article.content\<close>\<close>
  "content_get data =
     then_prop (then_prop (then_prop (get_prop data (utf16 ''data'')) (utf16 ''article''))
       (utf16 ''article'')) (utf16 ''content'')"

text \<open>
  \<^verbatim>\<open>getArticle\<close> of \<^verbatim>\<open>summary.js\<close>. \<^verbatim>\<open>article_data\<close> is the \<^verbatim>\<open>try\<close> block from the
  reply of \<^verbatim>\<open>fetch\<close> to the check of \<^verbatim>\<open>data.errors\<close>. A retry waits \<^verbatim>\<open>delay\<close> milliseconds
  and resolves with the nested call.
\<close>

definition article_data :: "fetch_result \<Rightarrow> error + jsval" where
  "article_data reply =
     (case reply of
        NoResponse \<Rightarrow> Inl FetchFailed
      | HttpResponse status body \<Rightarrow>
          if \<not> response_ok status then Inl (HttpError status)
          else (case body of
                  None \<Rightarrow> Inl SyntaxError
                | Some data \<Rightarrow>
                    (case get_prop data (utf16 ''errors'') of
                       Inl e \<Rightarrow> Inl e
                     | Inr errs \<Rightarrow> if truthy errs then Inl (graphql_error errs) else Inr data)))"

function summary_getArticle :: "env \<Rightarrow> jsval \<Rightarrow> nat \<Rightarrow> world \<Rightarrow> (error + jsval) \<times> world" where
  "summary_getArticle env articleId attempts w =
     (case do_fetch env (ArticleQuery articleId) (w @ [Console_log (GetArticleQuery articleId)]) of
        (reply, w1) \<Rightarrow>
          (case article_data reply of
             Inl e \<Rightarrow> (Inr Undefined, w1 @ [Console_error (ErrorFetchingArticle e)])
           | Inr data \<Rightarrow>
               if \<not> truthy (content_opt data) \<and> attempts < 3
               then summary_getArticle env articleId (attempts + 1)
                      (w1 @ [Console_error (Retrying (attempts + 1)),
                             SetTimeout (2 ^ attempts * 1000)])
               else (case content_get data of
                       Inl e \<Rightarrow> (Inr Undefined, w1 @ [Console_error (ErrorFetchingArticle e)])
                     | Inr content \<Rightarrow> (Inr content, w1))))"
  by pat_completeness auto
termination
  by (relation "measure (\<lambda>(env, articleId, attempts, w). 3 - attempts)") auto

declare summary_getArticle.simps [simp del]

text \<open>\<^verbatim>\<open>getArticle\<close> of \<^verbatim>\<open>annotate.js\<close>: more console lines, and a 500 \<^verbatim>\<open>Response\<close> from the catch.\<close>

definition annotate_article_data :: "fetch_result \<Rightarrow> world \<Rightarrow> (error + jsval) \<times> world" where
  "annotate_article_data reply w =
     (case reply of
        NoResponse \<Rightarrow> (Inl FetchFailed, w)
      | HttpResponse status body \<Rightarrow>
          (let w1 = w @ [Console_log (ResponseLine reply)] in
           if \<not> response_ok status then (Inl (HttpError status), w1)
           else (case body of
                   None \<Rightarrow> (Inl SyntaxError, w1)
                 | Some data \<Rightarrow>
                     (let w2 = w1 @ [Console_log (DataLine data)] in
                      case get_prop data (utf16 ''errors'') of
                        Inl e \<Rightarrow> (Inl e, w2)
                      | Inr errs \<Rightarrow>
                          if truthy errs then (Inl (graphql_error errs), w2) else (Inr data, w2)))))"

function annotate_getArticle :: "env \<Rightarrow> jsval \<Rightarrow> nat \<Rightarrow> world \<Rightarrow> (error + jsval) \<times> world" where
  "annotate_getArticle env articleId attempts w =
     (case do_fetch env (ArticleQuery articleId) (w @ [Console_log (GetArticleQuery articleId)]) of
        (reply, w1) \<Rightarrow>
          (case annotate_article_data reply w1 of
             (Inl e, w2) \<Rightarrow> (Inr (Response 500), w2 @ [Console_error (ErrorFetchingArticle e)])
           | (Inr data, w2) \<Rightarrow>
               if \<not> truthy (content_opt data) \<and> attempts < 3
               then annotate_getArticle env articleId (attempts + 1)
                      (w2 @ [Console_log (Retrying (attempts + 1)),
                             SetTimeout (2 ^ attempts * 1000)])
               else (case content_get data of
                       Inl e \<Rightarrow> (Inr (Response 500), w2 @ [Console_error (ErrorFetchingArticle e)])
                     | Inr content \<Rightarrow>
                         (Inr content, w2 @ [Console_log (ArticleContentLine content)]))))"
  by pat_completeness auto
termination
  by (relation "measure (\<lambda>(env, articleId, attempts, w). 3 - attempts)") auto

declare annotate_getArticle.simps [simp del]

text \<open>
  \<^verbatim>\<open>addAnnotation\<close>. \<^verbatim>\<open>createHighlight_result\<close> is the \<^verbatim>\<open>try\<close> block of \<^verbatim>\<open>summary.js\<close>
  and \<^verbatim>\<open>actions.js\<close> from the check of \<^verbatim>\<open>response.ok\<close> to the \<^verbatim>\<open>return\<close>. The
  \<^verbatim>\<open>query\<close> object, with \<^verbatim>\<open>id.substring(0, 8)\<close>, is built before the \<^verbatim>\<open>try\<close> block.
\<close>

definition createHighlight_result :: "fetch_result \<Rightarrow> world \<Rightarrow> (error + jsval) \<times> world" where
  "createHighlight_result reply w =
     (case reply of
        NoResponse \<Rightarrow> (Inl FetchFailed, w)
      | HttpResponse status body \<Rightarrow>
          if \<not> response_ok status
          then (Inl (HttpError status), w @ [Console_error (HttpErrorStatus status)])
          else (case body of
                  None \<Rightarrow> (Inl SyntaxError, w)
                | Some data \<Rightarrow>
                    (case get_prop data (utf16 ''errors'') of
                       Inl e \<Rightarrow> (Inl e, w)
                     | Inr errs \<Rightarrow>
                         if truthy errs
                         then (case graphql_error errs of
                                 GraphQLError es \<Rightarrow>
                                   (Inl (GraphQLError es), w @ [Console_error (GraphQLErrors es)])
                               | e \<Rightarrow> (Inl e, w))
                         else (then_prop (get_prop data (utf16 ''data''))
                                 (utf16 ''createHighlight''), w))))"

definition summary_addAnnotation ::
  "env \<Rightarrow> jsval \<Rightarrow> jsval \<Rightarrow> world \<Rightarrow> (error + jsval) \<times> world"
where
  "summary_addAnnotation env articleId annotation w =
     (let id = Str (uuidv4 env (uuid_count w));
          w1 = w @ [UuidV4 (uuidv4 env (uuid_count w))]
      in case substring_0_8 id of
           Inl e \<Rightarrow> (Inl e, w1)
         | Inr shortId \<Rightarrow>
             (case (case do_fetch env (CreateHighlight id shortId articleId annotation) w1 of
                      (NoResponse, w2) \<Rightarrow> (Inl FetchFailed, w2)
                    | (reply, w2) \<Rightarrow>
                        createHighlight_result reply (w2 @ [Console_log (ResponseLine reply)])) of
                (Inr v, w3) \<Rightarrow> (Inr v, w3)
              | (Inl e, w3) \<Rightarrow>
                  (Inr Undefined, w3 @ [Console_error (ErrorAddingAnnotation articleId e)])))"

text \<open>
  In \<^verbatim>\<open>actions.js\<close> the call of \<^verbatim>\<open>uuidv4\<close> is commented out and \<^verbatim>\<open>id\<close> is the method's
  third parameter (\<open>id'\<close> here).
\<close>

definition actions_addAnnotation ::
  "env \<Rightarrow> jsval \<Rightarrow> jsval \<Rightarrow> jsval \<Rightarrow> world \<Rightarrow> (error + jsval) \<times> world"
where
  "actions_addAnnotation env articleId annotation id' w =
     (case substring_0_8 id' of
        Inl e \<Rightarrow> (Inl e, w)
      | Inr shortId \<Rightarrow>
          (case (case do_fetch env (CreateHighlight id' shortId articleId annotation) w of
                   (reply, w2) \<Rightarrow> createHighlight_result reply w2) of
             (Inr v, w3) \<Rightarrow> (Inr v, w3)
           | (Inl e, w3) \<Rightarrow>
               (Inr Undefined, w3 @ [Console_error (ErrorAddingAnnotation articleId e)])))"

text \<open>\<^verbatim>\<open>addAnnotation\<close> of \<^verbatim>\<open>annotate.js\<close>.\<close>

definition annotate_createHighlight_result ::
  "fetch_result \<Rightarrow> world \<Rightarrow> (error + jsval) \<times> world"
where
  "annotate_createHighlight_result reply w =
     (case reply of
        NoResponse \<Rightarrow> (Inl FetchFailed, w)
      | HttpResponse status body \<Rightarrow>
          if \<not> response_ok status
          then (Inl (HttpError status), w @ [Console_error (HttpErrorStatus status)])
          else (case body of
                  None \<Rightarrow> (Inl SyntaxError, w)
                | Some data \<Rightarrow>
                    (let w1 = w @ [Console_log (DataLine data)] in
                     case get_prop data (utf16 ''errors'') of
                       Inl e \<Rightarrow> (Inl e, w1)
                     | Inr errs \<Rightarrow>
                         if truthy errs
                         then (case graphql_error errs of
                                 GraphQLError es \<Rightarrow>
                                   (Inl (GraphQLError es), w1 @ [Console_error (GraphQLErrors es)])
                               | e \<Rightarrow> (Inl e, w1))
                         else (case then_prop (get_prop data (utf16 ''data''))
                                      (utf16 ''createHighlight'') of
                                 Inl e \<Rightarrow> (Inl e, w1)
                               | Inr h \<Rightarrow> (Inr h, w1 @ [Console_log (AnnotationAdded h)])))))"

definition annotate_addAnnotation ::
  "env \<Rightarrow> jsval \<Rightarrow> jsval \<Rightarrow> world \<Rightarrow> (error + jsval) \<times> world"
where
  "annotate_addAnnotation env articleId annotation w =
     (let w0 = w @ [Console_log (AddingAnnotation articleId annotation)];
          id = Str (uuidv4 env (uuid_count w0));
          w1 = w0 @ [UuidV4 (uuidv4 env (uuid_count w0))]
      in case substring_0_8 id of
           Inl e \<Rightarrow> (Inl e, w1)
         | Inr shortId \<Rightarrow>
             (let query = CreateHighlight id shortId articleId annotation in
              case (case do_fetch env query (w1 @ [Console_log (AddAnnotationQuery query)]) of
                      (reply, w2) \<Rightarrow> annotate_createHighlight_result reply w2) of
                (Inr v, w3) \<Rightarrow> (Inr v, w3)
              | (Inl e, w3) \<Rightarrow>
                  (Inr (Response 500),
                   w3 @ [Console_error (ErrorAddingAnnotation articleId e)])))"

section \<open>The handlers\<close>

text \<open>
  A request is what \<^verbatim>\<open>req.json()\<close> gives: the parsed body, or \<^verbatim>\<open>None\<close> when it rejects.
  A handler returns the status of its \<^verbatim>\<open>Response\<close> and the value it serialises as the
  body, or rejects.
\<close>

datatype http_response = HttpReply nat jsval

definition lift :: "error + 'a \<Rightarrow> 's \<Rightarrow> (error + 'a) \<times> 's" where
  \<comment> \<open>an expression that may throw and does nothing else\<close>
  "lift r s = (r, s)"

definition read_body :: "jsval option \<Rightarrow> world \<Rightarrow> (error + jsval) \<times> world" where
  \<comment> \<open>\<^verbatim>\<open>try { body = await req.json(); } catch (e) { console.error(...) }\<close>\<close>
  "read_body req_json w =
     (case req_json of
        Some body \<Rightarrow> (Inr body, w)
      | None \<Rightarrow> (Inr Undefined, w @ [Console_error NoPayloadFound]))"

definition post_next ::
  "env \<Rightarrow> jsstring \<Rightarrow> jsval \<Rightarrow> world \<Rightarrow> (error + fetch_result) \<times> world"
where
  \<comment> \<open>\<^verbatim>\<open>await fetch(url, {method: 'POST', ..., body: JSON.stringify(payload)})\<close>\<close>
  "post_next env url payload w =
     (case do_fetch env (Handoff url payload) w of
        (NoResponse, w1) \<Rightarrow> (Inl FetchFailed, w1)
      | (reply, w1) \<Rightarrow> (Inr reply, w1))"

definition actions_url :: jsstring where
  "actions_url = utf16 ''https://ai-summary-theta.vercel.app/api/actions''"

definition repetition_url :: jsstring where
  "repetition_url = utf16 ''https://ai-summary-theta.vercel.app/api/repetition''"

text \<open>The default export of \<^verbatim>\<open>summary.js\<close> (stage 1).\<close>

definition summary_handler ::
  "env \<Rightarrow> jsval option \<Rightarrow> world \<Rightarrow> (error + http_response) \<times> world"
where
  "summary_handler env req_json =
     await (read_body req_json) (\<lambda>body.
     await (lift (get_prop body (utf16 ''page''))) (\<lambda>pageCreated.
     await (lift (get_prop pageCreated (utf16 ''id''))) (\<lambda>articleId.
     await (lift (new_Omnivore env)) (\<lambda>omnivore.
     await (summary_getArticle env articleId 0) (\<lambda>article.
     await (lift (new_AI env)) (\<lambda>ai.
     await (summary_addAnnotation env articleId (Str (utf16 ''En summering av artikeln'')))
       (\<lambda>response.
     await (post_next env actions_url
              (Obj [(utf16 ''articleId'', articleId), (utf16 ''article'', article),
                    (utf16 ''articleAnnotation'', Str [])])) (\<lambda>triggered.
     await (summary_addAnnotation env articleId (Str (utf16 ''test 2''))) (\<lambda>r2.
     await (summary_addAnnotation env articleId (Str (utf16 ''test 3''))) (\<lambda>r3.
     await (summary_addAnnotation env articleId (Str (utf16 ''test 4''))) (\<lambda>r4.
     lift (Inr (HttpReply 200 response)))))))))))))"

text \<open>
  The default export of \<^verbatim>\<open>actions.js\<close> (stage 2). It calls \<^verbatim>\<open>addAnnotation\<close> with two
  arguments, so the method's \<^verbatim>\<open>id\<close> is \<^verbatim>\<open>undefined\<close>.
\<close>

definition actions_handler ::
  "env \<Rightarrow> jsval option \<Rightarrow> world \<Rightarrow> (error + http_response) \<times> world"
where
  "actions_handler env req_json w =
     (await (read_body req_json) (\<lambda>body.
      await (lift (get_prop body (utf16 ''articleId''))) (\<lambda>articleId.
      await (lift (get_prop body (utf16 ''article''))) (\<lambda>article.
      await (lift (get_prop body (utf16 ''articleAnnotation''))) (\<lambda>articleAnnotation.
      await (lift (get_prop body (utf16 ''id''))) (\<lambda>id.
      await (\<lambda>w1. (Inr (), w1 @ [Console_log (IdLine id)])) (\<lambda>logged.
      await (lift (new_Omnivore env)) (\<lambda>omnivore.
      await (lift (new_AI env)) (\<lambda>ai.
      await (actions_addAnnotation env articleId (Str (utf16 ''En Action till artikeln''))
               Undefined) (\<lambda>response.
      await (post_next env repetition_url
               (Obj [(utf16 ''articleId'', articleId), (utf16 ''article'', article),
                     (utf16 ''articleAnnotation'', Str []), (utf16 ''id'', id)])) (\<lambda>triggered.
      lift (Inr (HttpReply 200 response))))))))))))
        (w @ [Console_log StartingActionAnnotation]))"

section \<open>Notions of the specification\<close>

text \<open>
  The specification's description of the escaping: one pass over the text that writes
  a backslash before every double quote, and a second pass that doubles every backslash.
\<close>

definition escape_quotes :: "jsstring \<Rightarrow> jsstring" where
  "escape_quotes s = concat (map (\<lambda>c. if c = quote then [backslash, quote] else [c]) s)"

definition escape_backslashes :: "jsstring \<Rightarrow> jsstring" where
  "escape_backslashes s =
     concat (map (\<lambda>c. if c = backslash then [backslash, backslash] else [c]) s)"

text \<open>
  A recording wrapper around a completion method: it notes the pair \<open>(prompt, articleContent)\<close>
  of every call made to the method, in order, beside the state the method works on.
\<close>

definition spy ::
  "(jsval \<Rightarrow> jsval \<Rightarrow> 's \<Rightarrow> (error + jsval) \<times> 's) \<Rightarrow>
   jsval \<Rightarrow> jsval \<Rightarrow> (jsval \<times> jsval) list \<times> 's \<Rightarrow> (error + jsval) \<times> ((jsval \<times> jsval) list \<times> 's)"
where
  "spy f p a cs = (case cs of (calls, s) \<Rightarrow> (case f p a s of (r, s') \<Rightarrow> (r, (calls @ [(p, a)], s'))))"

text \<open>The provider gave no usable text: no choice at all, or an empty first one.\<close>

fun no_usable_choice :: "create_result \<Rightarrow> bool" where
  "no_usable_choice (ChatCompletion []) = True"
| "no_usable_choice (ChatCompletion (Some [] # cs)) = True"
| "no_usable_choice r = False"


fun timeouts :: "world \<Rightarrow> nat list" where
  "timeouts [] = []"
| "timeouts (SetTimeout d # w) = d # timeouts w"
| "timeouts (e # w) = timeouts w"

text \<open>
  A reply of the article store that is a failure of one of the three kinds: no response,
  a status outside 200..299, or a JSON body with a truthy \<^verbatim>\<open>errors\<close> (an array is truthy).
\<close>

definition store_failure :: "fetch_result \<Rightarrow> bool" where
  "store_failure reply =
     (case reply of
        NoResponse \<Rightarrow> True
      | HttpResponse status body \<Rightarrow>
          \<not> response_ok status \<or>
          (case body of
             None \<Rightarrow> False
           | Some data \<Rightarrow>
               (case get_prop data (utf16 ''errors'') of Inl e \<Rightarrow> False | Inr errs \<Rightarrow> truthy errs)))"

text \<open>
  A stage-1 request without the \<^verbatim>\<open>page\<close> key: no JSON body at all, or a JSON value that
  has no such property. And the requests of a trace, in order.
\<close>

definition lacks_page :: "jsval option \<Rightarrow> bool" where
  "lacks_page req_json =
     (case req_json of
        None \<Rightarrow> True
      | Some body \<Rightarrow> (case body of Obj kvs \<Rightarrow> map_of kvs (utf16 ''page'') = None | _ \<Rightarrow> True))"

fun requests :: "world \<Rightarrow> request list" where
  "requests [] = []"
| "requests (Fetch r # w) = r # requests w"
| "requests (e # w) = requests w"

text \<open>
  The identifiers a trace has drawn from \<^verbatim>\<open>uuidv4\<close> and the ids of the highlights it has
  created, in order. An identifier in the RFC 4122 style is five groups of 8, 4, 4, 4 and
  12 hexadecimal digits, separated by hyphens. A trace is in step with the generator when
  the identifiers it has drawn are the generator's first values and every highlight it has
  created carries one of them.
\<close>

fun drawn :: "world \<Rightarrow> jsstring list" where
  "drawn [] = []"
| "drawn (UuidV4 u # w) = u # drawn w"
| "drawn (e # w) = drawn w"

fun highlight_ids :: "world \<Rightarrow> jsval list" where
  "highlight_ids [] = []"
| "highlight_ids (Fetch (CreateHighlight i s a t) # w) = i # highlight_ids w"
| "highlight_ids (e # w) = highlight_ids w"





section \<open>Scenarios\<close>

text \<open>
  The environment of the specification's scenarios: the store returns empty content twice
  and then the article, accepts every highlight and every hand-off; the provider answers
  \<^verbatim>\<open>A\<close>, \<^verbatim>\<open>B\<close>, \<^verbatim>\<open>C\<close> and then \<^verbatim>\<open>B-refined\<close> to the three texts joined by newlines.
\<close>

definition scenario_env :: env where
  "scenario_env =
     \<lparr>fetch_reply = (\<lambda>k r. case r of
          ArticleQuery a \<Rightarrow>
            HttpResponse 200 (Some (Obj [(utf16 ''data'', Obj [(utf16 ''article'',
              Obj [(utf16 ''article'',
                Obj [(utf16 ''content'', Str (if k < 2 then [] else utf16 ''Body''))])])])]))
        | CreateHighlight i s a t \<Rightarrow>
            HttpResponse 200 (Some (Obj [(utf16 ''data'',
              Obj [(utf16 ''createHighlight'', Obj [(utf16 ''id'', i)])])]))
        | Handoff u b \<Rightarrow> HttpResponse 200 None),
      create_reply = (\<lambda>k cfg p a.
          ChatCompletion [Some (if k = 0 then utf16 ''A'' else if k = 1 then utf16 ''B''
                                else if k = 2 then utf16 ''C''
                                else if a = Str (utf16 ''A'' @ [0x0A] @ utf16 ''B'' @ [0x0A] @ utf16 ''C'')
                                then utf16 ''B-refined'' else utf16 ''other'')]),
      uuidv4 = (\<lambda>k. utf16 ''0f8fad5b-d9cb-469f-a165-70867728950'' @ [of_nat (48 + k)]),
      OMNIVORE_API_KEY = Some (utf16 ''key''),
      openai_configured = True,
      settings_json = Some (Obj [(utf16 ''model'', Str (utf16 ''gpt-4o-mini''))])\<rparr>"

definition scenario_ai :: ai where
  "scenario_ai = \<lparr>settings = settings_json scenario_env\<rparr>"

text \<open>A provider whose text is: space, \<open>a\<close>, double quote, \<open>b\<close>, backslash, line feed.\<close>

definition quoting_env :: env where
  "quoting_env = scenario_env
     \<lparr>create_reply := (\<lambda>k cfg p a. ChatCompletion [Some [0x20, 0x61, 0x22, 0x62, 0x5C, 0x0A]])\<rparr>"

text \<open>Variants: a provider without choices, and a store that answers 500.\<close>

definition mute_env :: env where
  "mute_env = scenario_env \<lparr>create_reply := (\<lambda>k cfg p a. ChatCompletion [])\<rparr>"

definition failing_env :: env where
  "failing_env = scenario_env \<lparr>fetch_reply := (\<lambda>k r. HttpResponse 500 None)\<rparr>"

text \<open>An article-created event, and a hand-off as stage 1 would have to send it to stage 2.\<close>

definition fixed_id :: jsstring where
  "fixed_id = utf16 ''11111111-2222-4333-8444-555555555555''"

definition created_event :: jsval where
  "created_event = Obj [(utf16 ''page'', Obj [(utf16 ''id'', Str (utf16 ''abc123''))])]"

definition handoff_body :: jsval where
  "handoff_body =
     Obj [(utf16 ''articleId'', Str (utf16 ''abc123'')), (utf16 ''article'', Str (utf16 ''Body'')),
          (utf16 ''articleAnnotation'', Str []), (utf16 ''id'', Str fixed_id)]"

section \<open>Auxiliary facts\<close>

lemma utf16_Nil [simp]: "utf16 [] = []" by (simp add: utf16_def)
lemma utf16_Cons [simp]: "utf16 (c # cs) = of_nat (of_char c) # utf16 cs" by (simp add: utf16_def)

lemma replace_all_concat:
  "replace_all c r s = concat (map (\<lambda>x. if x = c then r else [x]) s)"
  by (induction s) simp_all

lemma trimAnnotation_two_passes:
  "trimAnnotation s = escape_backslashes (escape_quotes (js_trim s))"
  by (simp add: trimAnnotation_def escape_backslashes_def escape_quotes_def replace_all_concat)

text \<open>
  The two passes together, character by character: a double quote of the trimmed text comes
  out as two backslashes and the quote, a backslash as two backslashes.
\<close>

lemma two_passes_per_character:
  "escape_backslashes (escape_quotes s) =
     concat (map (\<lambda>c. if c = quote then [backslash, backslash, quote]
                       else if c = backslash then [backslash, backslash] else [c]) s)"
  by (induction s) (simp_all add: escape_backslashes_def escape_quotes_def quote_def backslash_def)

lemma create_count_append [simp]: "create_count (w @ v) = create_count w + create_count v"
  by (simp add: create_count_def)

lemma fetch_count_append [simp]: "fetch_count (w @ v) = fetch_count w + fetch_count v"
  by (simp add: fetch_count_def)

lemma uuid_count_append [simp]: "uuid_count (w @ v) = uuid_count w + uuid_count v"
  by (simp add: uuid_count_def)

lemma create_count_simps [simp]:
  "create_count [] = 0"
  "create_count (ChatCreate s p a # w) = Suc (create_count w)"
  "create_count (Fetch r # w) = create_count w"
  "create_count (SetTimeout d # w) = create_count w"
  "create_count (UuidV4 u # w) = create_count w"
  "create_count (Console_log m # w) = create_count w"
  "create_count (Console_error m # w) = create_count w"
  by (simp_all add: create_count_def)

lemma timeouts_append [simp]: "timeouts (w @ v) = timeouts w @ timeouts v"
  by (induction w rule: timeouts.induct) simp_all

lemma fetch_count_simps [simp]:
  "fetch_count [] = 0"
  "fetch_count (Fetch r # w) = Suc (fetch_count w)"
  "fetch_count (ChatCreate s p a # w) = fetch_count w"
  "fetch_count (SetTimeout d # w) = fetch_count w"
  "fetch_count (UuidV4 u # w) = fetch_count w"
  "fetch_count (Console_log m # w) = fetch_count w"
  "fetch_count (Console_error m # w) = fetch_count w"
  by (simp_all add: fetch_count_def)



lemma getCompletion_try_text:
  assumes "settings this = Some cfg"
    and "create_reply env (create_count w) cfg p a = ChatCompletion (Some text # rest)"
    and "text \<noteq> []"
  shows "getCompletion_try this env p a w = (Inr (Str (trimAnnotation text)), w @ [ChatCreate cfg p a])"
  using assms by (simp add: getCompletion_try_def)

lemma getCompletion_try_cases:
  "getCompletion_try this env p a w = (r, w') \<Longrightarrow>
     w' = w \<or> (\<exists>cfg. settings this = Some cfg \<and> w' = w @ [ChatCreate cfg p a])"
  by (auto simp: getCompletion_try_def Let_def split: option.splits create_result.splits if_splits list.splits)

lemma summary_getCompletion_Inr:
  "\<exists>v w'. summary_getCompletion this env p a w = (Inr v, w')"
  by (simp add: summary_getCompletion_def Let_def split: prod.splits sum.splits)

lemma annotate_getCompletion_Inr:
  "\<exists>v w'. annotate_getCompletion this env p a w = (Inr v, w')"
  by (simp add: annotate_getCompletion_def Let_def split: prod.splits sum.splits)

lemma spy_apply:
  "spy f p a (calls, s) = (fst (f p a s), (calls @ [(p, a)], snd (f p a s)))"
  by (simp add: spy_def split: prod.splits)

lemma promise_all_spy:
  "promise_all (replicate n (spy f p a)) (calls, s) =
     (fst (promise_all (replicate n (f p a)) s),
      (calls @ replicate n (p, a), snd (promise_all (replicate n (f p a)) s)))"
proof (induction n arbitrary: calls s)
  case 0
  show ?case by simp
next
  case (Suc n)
  obtain r s1 where m: "f p a s = (r, s1)" by (cases "f p a s")
  obtain rs s2 where ms: "promise_all (replicate n (f p a)) s1 = (rs, s2)"
    by (cases "promise_all (replicate n (f p a)) s1")
  show ?case
    by (simp add: Suc.IH spy_apply m ms replicate_app_Cons_same)
qed

lemma promise_all_never_raises:
  assumes "\<And>s. \<exists>v s'. f s = (Inr v, s')"
  shows "\<exists>rs s'. promise_all (replicate n f) s = (Inr rs, s') \<and> length rs = n"
proof (induction n arbitrary: s)
  case 0
  show ?case by simp
next
  case (Suc n)
  obtain v s1 where f: "f s = (Inr v, s1)" using assms by blast
  obtain rs s2 where r: "promise_all (replicate n f) s1 = (Inr rs, s2)" "length rs = n"
    using Suc by blast
  show ?case by (simp add: f r)
qed


lemma element_promise_Some: "element_promise (Some p) = p"
  by (rule ext) (simp add: element_promise_def)

lemma dense_promises:
  "map element_promise (array_map (\<lambda>c. g) (map Some vs)) = replicate (length vs) g"
  by (induction vs) (simp_all add: array_map_def element_promise_Some)

lemma promises_by_holes:
  "map element_promise (array_map (\<lambda>c. g) cs) =
     map (\<lambda>hole. if hole then element_promise None else g) (map (\<lambda>slot. slot = None) cs)"
  by (induction cs) (auto simp: array_map_def element_promise_Some)

lemma summary_getCompletion_creates:
  assumes "settings this = Some cfg"
  shows "filter is_create (snd (summary_getCompletion this env p a w)) =
           filter is_create w @ [ChatCreate cfg p a]"
  using assms
  by (simp add: summary_getCompletion_def getCompletion_try_def Let_def
           split: create_result.splits list.splits option.splits)

lemma promise_all_creates:
  assumes "settings this = Some cfg"
  shows "filter is_create (snd (promise_all (replicate n (summary_getCompletion this env p a)) w)) =
           filter is_create w @ replicate n (ChatCreate cfg p a)"
proof (induction n arbitrary: w)
  case 0
  show ?case by simp
next
  case (Suc n)
  obtain r w1 where m: "summary_getCompletion this env p a w = (r, w1)"
    by (cases "summary_getCompletion this env p a w")
  have w1: "filter is_create w1 = filter is_create w @ [ChatCreate cfg p a]"
    using summary_getCompletion_creates [OF assms, of env p a w] m by simp
  obtain rs w2 where ms: "promise_all (replicate n (summary_getCompletion this env p a)) w1 = (rs, w2)"
    by (cases "promise_all (replicate n (summary_getCompletion this env p a)) w1")
  have "filter is_create w2 = filter is_create w1 @ replicate n (ChatCreate cfg p a)"
    using Suc [of w1] ms by simp
  then show ?case by (simp add: m ms w1 replicate_app_Cons_same)
qed

lemma summary_REFINEMENT_PROMPT_nonempty [simp]: "summary_REFINEMENT_PROMPT \<noteq> []"
  by (simp add: summary_REFINEMENT_PROMPT_def)

lemma annotate_REFINEMENT_PROMPT_nonempty [simp]: "annotate_REFINEMENT_PROMPT \<noteq> []"
  by (simp add: annotate_REFINEMENT_PROMPT_def)

lemma scenario_settings:
  "settings scenario_ai = Some (Obj [(utf16 ''model'', Str (utf16 ''gpt-4o-mini''))])"
  by (simp add: scenario_ai_def scenario_env_def)

lemma scenario_create_reply:
  "create_reply scenario_env k cfg p a =
     ChatCompletion [Some (if k = 0 then utf16 ''A'' else if k = 1 then utf16 ''B''
                                else if k = 2 then utf16 ''C''
                                else if a = Str (utf16 ''A'' @ [0x0A] @ utf16 ''B'' @ [0x0A] @ utf16 ''C'')
                                then utf16 ''B-refined'' else utf16 ''other'')]"
  by (simp add: scenario_env_def)


lemma uuid_count_simps [simp]:
  "uuid_count [] = 0"
  "uuid_count (UuidV4 u # w) = Suc (uuid_count w)"
  "uuid_count (Fetch r # w) = uuid_count w"
  "uuid_count (ChatCreate s p a # w) = uuid_count w"
  "uuid_count (SetTimeout d # w) = uuid_count w"
  "uuid_count (Console_log m # w) = uuid_count w"
  "uuid_count (Console_error m # w) = uuid_count w"
  by (simp_all add: uuid_count_def)

lemma store_failure_article_data:
  "store_failure reply \<Longrightarrow> \<exists>e. article_data reply = Inl e"
  by (auto simp: store_failure_def article_data_def split: fetch_result.splits option.splits sum.splits)

lemma store_failure_annotate_article_data:
  "store_failure reply \<Longrightarrow> \<exists>e w'. annotate_article_data reply w = (Inl e, w')"
  by (auto simp: store_failure_def annotate_article_data_def Let_def
           split: fetch_result.splits option.splits sum.splits)



lemma store_failure_createHighlight:
  "store_failure reply \<Longrightarrow> \<exists>e. fst (createHighlight_result reply w) = Inl e"
  by (auto simp: store_failure_def createHighlight_result_def
           split: fetch_result.splits option.splits sum.splits error.splits)

lemma store_failure_annotate_createHighlight:
  "store_failure reply \<Longrightarrow> \<exists>e. fst (annotate_createHighlight_result reply w) = Inl e"
  by (auto simp: store_failure_def annotate_createHighlight_result_def Let_def
           split: fetch_result.splits option.splits sum.splits error.splits)

lemma requests_append [simp]: "requests (w @ v) = requests w @ requests v"
  by (induction w rule: requests.induct) simp_all

lemma scenario_getArticle:
  "summary_getArticle scenario_env (Str (utf16 ''abc123'')) 0 [] =
     (Inr (Str (utf16 ''Body'')),
      [Console_log (GetArticleQuery (Str (utf16 ''abc123''))),
       Fetch (ArticleQuery (Str (utf16 ''abc123''))),
       Console_error (Retrying 1), SetTimeout 1000,
       Console_log (GetArticleQuery (Str (utf16 ''abc123''))),
       Fetch (ArticleQuery (Str (utf16 ''abc123''))),
       Console_error (Retrying 2), SetTimeout 2000,
       Console_log (GetArticleQuery (Str (utf16 ''abc123''))),
       Fetch (ArticleQuery (Str (utf16 ''abc123'')))])"
  by (simp add: summary_getArticle.simps do_fetch_def article_data_def scenario_env_def
        response_ok_def content_opt_def content_get_def opt_prop_def then_prop_def)

lemma scenario_addAnnotation:
  "summary_addAnnotation scenario_env articleId annotation w =
     (Inr (Obj [(utf16 ''id'', Str (uuidv4 scenario_env (uuid_count w)))]),
      w @ [UuidV4 (uuidv4 scenario_env (uuid_count w)),
           Fetch (CreateHighlight (Str (uuidv4 scenario_env (uuid_count w)))
                    (Str (utf16 ''0f8fad5b'')) articleId annotation),
           Console_log (ResponseLine (HttpResponse 200 (Some (Obj [(utf16 ''data'',
              Obj [(utf16 ''createHighlight'',
                Obj [(utf16 ''id'', Str (uuidv4 scenario_env (uuid_count w)))])])]))))])"
  by (simp add: summary_addAnnotation_def do_fetch_def createHighlight_result_def scenario_env_def
        response_ok_def then_prop_def Let_def)

lemma scenario_getCompletion:
  assumes "truthy p" and "truthy a"
  shows "summary_getCompletion scenario_ai scenario_env p a w =
      (Inr (Str (if create_count w = 0 then utf16 ''A'' else if create_count w = 1 then utf16 ''B''
                 else if create_count w = 2 then utf16 ''C''
                 else if a = Str (utf16 ''A'' @ [0x0A] @ utf16 ''B'' @ [0x0A] @ utf16 ''C'')
                 then utf16 ''B-refined'' else utf16 ''other'')),
       w @ [ChatCreate (Obj [(utf16 ''model'', Str (utf16 ''gpt-4o-mini''))]) p a])"
  using assms
  by (simp add: summary_getCompletion_def getCompletion_try_def scenario_settings
        scenario_create_reply trimAnnotation_def js_trim_def js_whitespace_def quote_def backslash_def)

lemma drawn_append [simp]: "drawn (w @ v) = drawn w @ drawn v"
  by (induction w rule: drawn.induct) simp_all

lemma highlight_ids_append [simp]: "highlight_ids (w @ v) = highlight_ids w @ highlight_ids v"
  by (induction w rule: highlight_ids.induct) simp_all








section \<open>The claims\<close>

text \<open>
  C1. A completion text that the provider returns reaches the caller of \<^verbatim>\<open>getCompletion\<close>
  trimmed, then with a backslash written before every double quote, then with every
  backslash doubled, the two replacements in that order (in \<^verbatim>\<open>summary.js\<close> and
  \<^verbatim>\<open>actions.js\<close> for any arguments, in \<^verbatim>\<open>annotate.js\<close> once its guard on empty arguments
  is passed).
\<close>

theorem completion_text_escaped:
  assumes "settings this = Some cfg"
    and "create_reply env (create_count w) cfg prompt articleContent = ChatCompletion (Some text # rest)"
    and "text \<noteq> []"
  shows "fst (summary_getCompletion this env prompt articleContent w) =
           Inr (Str (escape_backslashes (escape_quotes (js_trim text)))) \<and>
         (truthy prompt \<and> truthy articleContent \<longrightarrow>
            fst (annotate_getCompletion this env prompt articleContent w) =
              Inr (Str (escape_backslashes (escape_quotes (js_trim text)))))"
proof -
  have s: "fst (summary_getCompletion this env prompt articleContent w) = Inr (Str (trimAnnotation text))"
    using assms by (simp add: summary_getCompletion_def getCompletion_try_text Let_def)
  have a: "fst (annotate_getCompletion this env prompt articleContent w) = Inr (Str (trimAnnotation text))"
    if "truthy prompt" "truthy articleContent"
    using assms that
    by (simp add: annotate_getCompletion_def annotate_getCompletion_try_def getCompletion_try_text Let_def)
  show ?thesis using s a by (simp add: trimAnnotation_two_passes)
qed

theorem completion_text_escaped_witness:
  "settings scenario_ai = Some (Obj [(utf16 ''model'', Str (utf16 ''gpt-4o-mini''))]) \<and>
   create_reply quoting_env (create_count [])
       (Obj [(utf16 ''model'', Str (utf16 ''gpt-4o-mini''))]) (Str (utf16 ''p'')) (Str (utf16 ''a''))
     = ChatCompletion [Some [0x20, 0x61, 0x22, 0x62, 0x5C, 0x0A]] \<and>
   fst (summary_getCompletion scenario_ai quoting_env (Str (utf16 ''p'')) (Str (utf16 ''a'')) [])
     = Inr (Str [0x61, 0x5C, 0x5C, 0x22, 0x62, 0x5C, 0x5C]) \<and>
   fst (annotate_getCompletion scenario_ai quoting_env (Str (utf16 ''p'')) (Str (utf16 ''a'')) [])
     = Inr (Str [0x61, 0x5C, 0x5C, 0x22, 0x62, 0x5C, 0x5C])"
proof -
  have s: "settings scenario_ai = Some (Obj [(utf16 ''model'', Str (utf16 ''gpt-4o-mini''))])"
    by (simp add: scenario_ai_def scenario_env_def)
  have c: "create_reply quoting_env (create_count [])
       (Obj [(utf16 ''model'', Str (utf16 ''gpt-4o-mini''))]) (Str (utf16 ''p'')) (Str (utf16 ''a''))
     = ChatCompletion [Some [0x20, 0x61, 0x22, 0x62, 0x5C, 0x0A]]"
    by (simp add: quoting_env_def)
  have e: "escape_backslashes (escape_quotes (js_trim [0x20, 0x61, 0x22, 0x62, 0x5C, 0x0A]))
             = [0x61, 0x5C, 0x5C, 0x22, 0x62, 0x5C, 0x5C]"
    by (simp add: escape_backslashes_def escape_quotes_def js_trim_def js_whitespace_def
          quote_def backslash_def)
  show ?thesis
    using completion_text_escaped [OF s c] s c e by simp
qed



text \<open>
  C3. For an array of \<open>n \<ge> 1\<close> elements and non-empty instruction and article content, the
  selector calls the completion method once per element with the pair (instruction, article
  content) and then once more with the refinement prompt and the results joined by
  newlines, which is \<open>n + 1\<close> calls, and returns what the last call returns; with parsed
  settings these are \<open>n + 1\<close> requests to the provider. With an empty instruction, empty
  content, or an absent or empty array it raises and no call has been made.
\<close>

theorem getBestCompletionOutOf_calls:
  "(truthy prompt \<and> truthy articleContent \<and> vs \<noteq> [] \<longrightarrow>
      (\<exists>rs w1 r w2.
         promise_all (replicate (length vs) (summary_getCompletion this env prompt articleContent)) w
           = (Inr rs, w1) \<and>
         length rs = length vs \<and>
         summary_getCompletion this env (Str summary_REFINEMENT_PROMPT)
             (Str (array_join rs newline)) w1 = (Inr r, w2) \<and>
         getBestCompletionOutOf (spy (summary_getCompletion this env)) summary_REFINEMENT_PROMPT
             prompt (Some (map Some vs)) articleContent (calls, w)
           = (Inr r, (calls @ replicate (length vs) (prompt, articleContent)
                        @ [(Str summary_REFINEMENT_PROMPT, Str (array_join rs newline))], w2)) \<and>
         summary_getBestCompletionOutOf this env prompt (Some (map Some vs)) articleContent w = (Inr r, w2) \<and>
         (\<forall>cfg. settings this = Some cfg \<longrightarrow>
            filter is_create w2 =
              filter is_create w @ replicate (length vs) (ChatCreate cfg prompt articleContent)
                @ [ChatCreate cfg (Str summary_REFINEMENT_PROMPT) (Str (array_join rs newline))]))) \<and>
   (\<not> truthy prompt \<or> \<not> truthy articleContent \<or> completions = None \<or> completions = Some [] \<longrightarrow>
      getBestCompletionOutOf (spy (summary_getCompletion this env)) summary_REFINEMENT_PROMPT
          prompt completions articleContent (calls, w)
        = (Inl RequiredError, (calls, w)) \<and>
      summary_getBestCompletionOutOf this env prompt completions articleContent w
        = (Inl RequiredError, w))"
proof (intro conjI impI)
  let ?g = "summary_getCompletion this env"
  let ?ref = summary_REFINEMENT_PROMPT
  assume ok: "truthy prompt \<and> truthy articleContent \<and> vs \<noteq> []"
  obtain rs w1 where rs:
    "promise_all (replicate (length vs) (?g prompt articleContent)) w = (Inr rs, w1)"
    "length rs = length vs"
    using promise_all_never_raises [of "?g prompt articleContent" "length vs" w]
      summary_getCompletion_Inr by blast
  obtain r w2 where r: "?g (Str ?ref) (Str (array_join rs newline)) w1 = (Inr r, w2)"
    using summary_getCompletion_Inr by blast
  have spied: "getBestCompletionOutOf (spy ?g) ?ref prompt (Some (map Some vs)) articleContent (calls, w)
          = (Inr r, (calls @ replicate (length vs) (prompt, articleContent)
                       @ [(Str ?ref, Str (array_join rs newline))], w2))"
    using ok rs r
    by (simp add: getBestCompletionOutOf_def await_def promise_all_spy spy_apply dense_promises)
  have plain: "summary_getBestCompletionOutOf this env prompt (Some (map Some vs)) articleContent w = (Inr r, w2)"
    using ok rs r
    by (simp add: summary_getBestCompletionOutOf_def getBestCompletionOutOf_def await_def
          dense_promises)
  have reqs: "filter is_create w2 =
      filter is_create w @ replicate (length vs) (ChatCreate cfg prompt articleContent)
        @ [ChatCreate cfg (Str ?ref) (Str (array_join rs newline))]"
    if cfg: "settings this = Some cfg" for cfg
  proof -
    have "filter is_create w1 =
        filter is_create w @ replicate (length vs) (ChatCreate cfg prompt articleContent)"
      using promise_all_creates [OF cfg, of "length vs" env prompt articleContent w] rs by simp
    moreover have "filter is_create w2 =
        filter is_create w1 @ [ChatCreate cfg (Str ?ref) (Str (array_join rs newline))]"
      using summary_getCompletion_creates [OF cfg, of env "Str ?ref" "Str (array_join rs newline)" w1] r
      by simp
    ultimately show ?thesis by simp
  qed
  show "\<exists>rs w1 r w2.
         promise_all (replicate (length vs) (?g prompt articleContent)) w = (Inr rs, w1) \<and>
         length rs = length vs \<and>
         ?g (Str ?ref) (Str (array_join rs newline)) w1 = (Inr r, w2) \<and>
         getBestCompletionOutOf (spy ?g) ?ref prompt (Some (map Some vs)) articleContent (calls, w)
           = (Inr r, (calls @ replicate (length vs) (prompt, articleContent)
                        @ [(Str ?ref, Str (array_join rs newline))], w2)) \<and>
         summary_getBestCompletionOutOf this env prompt (Some (map Some vs)) articleContent w = (Inr r, w2) \<and>
         (\<forall>cfg. settings this = Some cfg \<longrightarrow>
            filter is_create w2 =
              filter is_create w @ replicate (length vs) (ChatCreate cfg prompt articleContent)
                @ [ChatCreate cfg (Str ?ref) (Str (array_join rs newline))])"
    using rs r spied plain reqs by blast
next
  assume bad: "\<not> truthy prompt \<or> \<not> truthy articleContent \<or> completions = None \<or> completions = Some []"
  then show "getBestCompletionOutOf (spy (summary_getCompletion this env)) summary_REFINEMENT_PROMPT
          prompt completions articleContent (calls, w)
        = (Inl RequiredError, (calls, w))"
    by (auto simp: getBestCompletionOutOf_def split: option.splits)
  from bad show "summary_getBestCompletionOutOf this env prompt completions articleContent w
        = (Inl RequiredError, w)"
    by (auto simp: summary_getBestCompletionOutOf_def getBestCompletionOutOf_def split: option.splits)
qed

theorem getBestCompletionOutOf_calls_witness:
  "truthy (Str (utf16 ''Summarize'')) \<and> truthy (Str (utf16 ''some text'')) \<and>
   [Num 0, Num 1, Num 2] \<noteq> [] \<and>
   getBestCompletionOutOf (spy (summary_getCompletion scenario_ai scenario_env))
       summary_REFINEMENT_PROMPT (Str (utf16 ''Summarize'')) (Some [Some (Num 0), Some (Num 1), Some (Num 2)])
       (Str (utf16 ''some text'')) ([], [])
     = (Inr (Str (utf16 ''B-refined'')),
        ([(Str (utf16 ''Summarize''), Str (utf16 ''some text'')),
          (Str (utf16 ''Summarize''), Str (utf16 ''some text'')),
          (Str (utf16 ''Summarize''), Str (utf16 ''some text'')),
          (Str summary_REFINEMENT_PROMPT,
           Str (utf16 ''A'' @ [0x0A] @ utf16 ''B'' @ [0x0A] @ utf16 ''C''))],
         [ChatCreate (Obj [(utf16 ''model'', Str (utf16 ''gpt-4o-mini''))])
            (Str (utf16 ''Summarize'')) (Str (utf16 ''some text'')),
          ChatCreate (Obj [(utf16 ''model'', Str (utf16 ''gpt-4o-mini''))])
            (Str (utf16 ''Summarize'')) (Str (utf16 ''some text'')),
          ChatCreate (Obj [(utf16 ''model'', Str (utf16 ''gpt-4o-mini''))])
            (Str (utf16 ''Summarize'')) (Str (utf16 ''some text'')),
          ChatCreate (Obj [(utf16 ''model'', Str (utf16 ''gpt-4o-mini''))])
            (Str summary_REFINEMENT_PROMPT)
            (Str (utf16 ''A'' @ [0x0A] @ utf16 ''B'' @ [0x0A] @ utf16 ''C''))])) \<and>
   getBestCompletionOutOf (spy (summary_getCompletion scenario_ai scenario_env))
       summary_REFINEMENT_PROMPT (Str (utf16 ''Summarize'')) (Some [])
       (Str (utf16 ''some text'')) ([], [])
     = (Inl RequiredError, ([], []))"
proof -
  have run: "getBestCompletionOutOf (spy (summary_getCompletion scenario_ai scenario_env))
       summary_REFINEMENT_PROMPT (Str (utf16 ''Summarize'')) (Some [Some (Num 0), Some (Num 1), Some (Num 2)])
       (Str (utf16 ''some text'')) ([], [])
     = (Inr (Str (utf16 ''B-refined'')),
        ([(Str (utf16 ''Summarize''), Str (utf16 ''some text'')),
          (Str (utf16 ''Summarize''), Str (utf16 ''some text'')),
          (Str (utf16 ''Summarize''), Str (utf16 ''some text'')),
          (Str summary_REFINEMENT_PROMPT,
           Str (utf16 ''A'' @ [0x0A] @ utf16 ''B'' @ [0x0A] @ utf16 ''C''))],
         [ChatCreate (Obj [(utf16 ''model'', Str (utf16 ''gpt-4o-mini''))])
            (Str (utf16 ''Summarize'')) (Str (utf16 ''some text'')),
          ChatCreate (Obj [(utf16 ''model'', Str (utf16 ''gpt-4o-mini''))])
            (Str (utf16 ''Summarize'')) (Str (utf16 ''some text'')),
          ChatCreate (Obj [(utf16 ''model'', Str (utf16 ''gpt-4o-mini''))])
            (Str (utf16 ''Summarize'')) (Str (utf16 ''some text'')),
          ChatCreate (Obj [(utf16 ''model'', Str (utf16 ''gpt-4o-mini''))])
            (Str summary_REFINEMENT_PROMPT)
            (Str (utf16 ''A'' @ [0x0A] @ utf16 ''B'' @ [0x0A] @ utf16 ''C''))]))"
    by (simp add: getBestCompletionOutOf_def await_def spy_apply scenario_getCompletion
          array_map_def element_promise_def array_join_def newline_def)
  show ?thesis
    using getBestCompletionOutOf_calls
      [of "Str (utf16 ''Summarize'')" "Str (utf16 ''some text'')" "[Num 0, Num 1, Num 2]"
          scenario_ai scenario_env "[]" "[]" "Some []"]
      run
    by simp
qed

text \<open>
  C4, as the code has it. \<^verbatim>\<open>getCompletion\<close> never raises to its caller. When the provider
  returns no choice or an empty first text, the error is caught and logged and the call
  returns \<^verbatim>\<open>undefined\<close> (\<^verbatim>\<open>summary.js\<close>, \<^verbatim>\<open>actions.js\<close>) or a \<^verbatim>\<open>Response\<close> object of
  status 500 (\<^verbatim>\<open>annotate.js\<close>). An empty instruction or article content is reported on
  the console (\<^verbatim>\<open>summary.js\<close>, \<^verbatim>\<open>actions.js\<close>), or answered with a \<^verbatim>\<open>Response\<close> object of
  status 400 before the provider is contacted (\<^verbatim>\<open>annotate.js\<close>).
\<close>

theorem getCompletion_swallows:
  "(\<exists>v w'. summary_getCompletion this env p a w = (Inr v, w')) \<and>
   (\<exists>v w'. annotate_getCompletion this env p a w = (Inr v, w')) \<and>
   (settings this = Some cfg \<and> no_usable_choice (create_reply env (create_count w) cfg p a) \<longrightarrow>
      fst (summary_getCompletion this env p a w) = Inr Undefined \<and>
      last (snd (summary_getCompletion this env p a w))
        = Console_error (ErrorFetchingCompletion (NoCompletion p)) \<and>
      (truthy p \<and> truthy a \<longrightarrow>
         annotate_getCompletion this env p a w
           = (Inr (Response 500),
              w @ [Console_log (GettingCompletion p), ChatCreate cfg p a,
                   Console_error (ErrorFetchingCompletion (NoCompletion p))]))) \<and>
   (\<not> truthy p \<or> \<not> truthy a \<longrightarrow>
      Console_error PromptRequired \<in> set (snd (summary_getCompletion this env p a w)) \<and>
      annotate_getCompletion this env p a w
        = (Inr (Response 400), w @ [Console_log (GettingCompletion p)]))"
proof (intro conjI impI)
  show "\<exists>v w'. summary_getCompletion this env p a w = (Inr v, w')"
    by (rule summary_getCompletion_Inr)
  show "\<exists>v w'. annotate_getCompletion this env p a w = (Inr v, w')"
    by (rule annotate_getCompletion_Inr)
next
  assume h: "settings this = Some cfg \<and> no_usable_choice (create_reply env (create_count w) cfg p a)"
  have tr: "getCompletion_try this env p a w' = (Inl (NoCompletion p), w' @ [ChatCreate cfg p a])"
    if "create_count w' = create_count w" for w'
    using h that
    by (cases "create_reply env (create_count w) cfg p a" rule: no_usable_choice.cases)
       (simp_all add: getCompletion_try_def)
  show "fst (summary_getCompletion this env p a w) = Inr Undefined"
    by (simp add: summary_getCompletion_def Let_def tr)
  show "last (snd (summary_getCompletion this env p a w))
        = Console_error (ErrorFetchingCompletion (NoCompletion p))"
    by (simp add: summary_getCompletion_def Let_def tr)
  assume "truthy p \<and> truthy a"
  then show "annotate_getCompletion this env p a w
           = (Inr (Response 500),
              w @ [Console_log (GettingCompletion p), ChatCreate cfg p a,
                   Console_error (ErrorFetchingCompletion (NoCompletion p))])"
    by (simp add: annotate_getCompletion_def annotate_getCompletion_try_def Let_def tr)
next
  assume e: "\<not> truthy p \<or> \<not> truthy a"
  obtain r w' where t: "getCompletion_try this env p a (w @ [Console_error PromptRequired]) = (r, w')"
    by (cases "getCompletion_try this env p a (w @ [Console_error PromptRequired])")
  from getCompletion_try_cases [OF t]
  have "Console_error PromptRequired \<in> set w'" by auto
  with e t show "Console_error PromptRequired \<in> set (snd (summary_getCompletion this env p a w))"
    by (auto simp: summary_getCompletion_def Let_def split: sum.splits)
  from e show "annotate_getCompletion this env p a w
        = (Inr (Response 400), w @ [Console_log (GettingCompletion p)])"
    by (auto simp: annotate_getCompletion_def Let_def)
qed

theorem getCompletion_swallows_witness:
  "settings scenario_ai = Some (Obj [(utf16 ''model'', Str (utf16 ''gpt-4o-mini''))]) \<and>
   no_usable_choice (create_reply mute_env (create_count [])
      (Obj [(utf16 ''model'', Str (utf16 ''gpt-4o-mini''))]) (Str (utf16 ''p'')) (Str (utf16 ''a''))) \<and>
   truthy (Str (utf16 ''p'')) \<and> truthy (Str (utf16 ''a'')) \<and>
   fst (summary_getCompletion scenario_ai mute_env (Str (utf16 ''p'')) (Str (utf16 ''a'')) [])
     = Inr Undefined \<and>
   last (snd (summary_getCompletion scenario_ai mute_env (Str (utf16 ''p'')) (Str (utf16 ''a'')) []))
     = Console_error (ErrorFetchingCompletion (NoCompletion (Str (utf16 ''p'')))) \<and>
   annotate_getCompletion scenario_ai mute_env (Str (utf16 ''p'')) (Str (utf16 ''a'')) []
     = (Inr (Response 500),
        [Console_log (GettingCompletion (Str (utf16 ''p''))),
         ChatCreate (Obj [(utf16 ''model'', Str (utf16 ''gpt-4o-mini''))])
           (Str (utf16 ''p'')) (Str (utf16 ''a'')),
         Console_error (ErrorFetchingCompletion (NoCompletion (Str (utf16 ''p''))))]) \<and>
   \<not> truthy (Str []) \<and>
   Console_error PromptRequired
     \<in> set (snd (summary_getCompletion scenario_ai mute_env (Str []) (Str (utf16 ''a'')) [])) \<and>
   annotate_getCompletion scenario_ai mute_env (Str []) (Str (utf16 ''a'')) []
     = (Inr (Response 400), [Console_log (GettingCompletion (Str []))])"
proof -
  have s: "settings scenario_ai = Some (Obj [(utf16 ''model'', Str (utf16 ''gpt-4o-mini''))])"
    by (rule scenario_settings)
  have n: "no_usable_choice (create_reply mute_env (create_count [])
      (Obj [(utf16 ''model'', Str (utf16 ''gpt-4o-mini''))]) (Str (utf16 ''p'')) (Str (utf16 ''a'')))"
    by (simp add: mute_env_def)
  show ?thesis
    using getCompletion_swallows
        [of scenario_ai mute_env "Str (utf16 ''p'')" "Str (utf16 ''a'')" "[]"
            "Obj [(utf16 ''model'', Str (utf16 ''gpt-4o-mini''))]"]
      getCompletion_swallows
        [of scenario_ai mute_env "Str []" "Str (utf16 ''a'')" "[]"
            "Obj [(utf16 ''model'', Str (utf16 ''gpt-4o-mini''))]"]
      s n
    by simp
qed

text \<open>
  C4 as stated fails: with no choices the call returns \<^verbatim>\<open>undefined\<close>, with an empty
  instruction it returns the completion, and in \<^verbatim>\<open>annotate.js\<close> a \<^verbatim>\<open>Response\<close> object;
  none of them is a rejection.
\<close>

theorem getCompletion_returns_on_failure:
  "summary_getCompletion scenario_ai mute_env (Str (utf16 ''p'')) (Str (utf16 ''a'')) []
     = (Inr Undefined,
        [ChatCreate (Obj [(utf16 ''model'', Str (utf16 ''gpt-4o-mini''))])
           (Str (utf16 ''p'')) (Str (utf16 ''a'')),
         Console_error (ErrorFetchingCompletion (NoCompletion (Str (utf16 ''p''))))]) \<and>
   summary_getCompletion scenario_ai scenario_env (Str []) (Str (utf16 ''a'')) []
     = (Inr (Str (utf16 ''A'')),
        [Console_error PromptRequired,
         ChatCreate (Obj [(utf16 ''model'', Str (utf16 ''gpt-4o-mini''))])
           (Str []) (Str (utf16 ''a''))]) \<and>
   annotate_getCompletion scenario_ai mute_env (Str []) (Str (utf16 ''a'')) []
     = (Inr (Response 400), [Console_log (GettingCompletion (Str []))])"
  by (simp add: summary_getCompletion_def annotate_getCompletion_def getCompletion_try_def
        scenario_settings scenario_create_reply mute_env_def
        trimAnnotation_def js_trim_def js_whitespace_def quote_def backslash_def)

text \<open>
  C5, as the code has it. When the store's reply to \<^verbatim>\<open>getArticle\<close> or to \<^verbatim>\<open>addAnnotation\<close>
  is a transport error, a non-2xx status or carries GraphQL errors, the error is caught and
  logged with \<^verbatim>\<open>console.error\<close> and is not propagated; the method then returns
  \<^verbatim>\<open>undefined\<close> in \<^verbatim>\<open>summary.js\<close> and a \<^verbatim>\<open>Response\<close> object of status 500 in
  \<^verbatim>\<open>annotate.js\<close>.
\<close>

theorem store_errors_swallowed:
  "(store_failure (fetch_reply env (fetch_count w) (ArticleQuery articleId)) \<longrightarrow>
      (\<exists>e. summary_getArticle env articleId attempts w
              = (Inr Undefined,
                 w @ [Console_log (GetArticleQuery articleId), Fetch (ArticleQuery articleId),
                      Console_error (ErrorFetchingArticle e)])) \<and>
      (\<exists>e w'. annotate_getArticle env articleId attempts w
              = (Inr (Response 500), w' @ [Console_error (ErrorFetchingArticle e)]))) \<and>
   (store_failure (fetch_reply env (fetch_count w)
        (CreateHighlight (Str (uuidv4 env (uuid_count w))) (Str (take 8 (uuidv4 env (uuid_count w))))
           articleId annotation)) \<longrightarrow>
      (\<exists>e w'. summary_addAnnotation env articleId annotation w
              = (Inr Undefined, w' @ [Console_error (ErrorAddingAnnotation articleId e)])) \<and>
      (\<exists>e w'. annotate_addAnnotation env articleId annotation w
              = (Inr (Response 500), w' @ [Console_error (ErrorAddingAnnotation articleId e)])))"
proof (intro conjI impI)
  assume f: "store_failure (fetch_reply env (fetch_count w) (ArticleQuery articleId))"
  from store_failure_article_data [OF f] obtain e where
    "article_data (fetch_reply env (fetch_count w) (ArticleQuery articleId)) = Inl e" ..
  then have "summary_getArticle env articleId attempts w
              = (Inr Undefined,
                 w @ [Console_log (GetArticleQuery articleId), Fetch (ArticleQuery articleId),
                      Console_error (ErrorFetchingArticle e)])"
    by (subst summary_getArticle.simps) (simp add: do_fetch_def)
  then show "\<exists>e. summary_getArticle env articleId attempts w
              = (Inr Undefined,
                 w @ [Console_log (GetArticleQuery articleId), Fetch (ArticleQuery articleId),
                      Console_error (ErrorFetchingArticle e)])" ..
  let ?w1 = "w @ [Console_log (GetArticleQuery articleId), Fetch (ArticleQuery articleId)]"
  from store_failure_annotate_article_data [OF f, of ?w1] obtain e' w' where
    "annotate_article_data (fetch_reply env (fetch_count w) (ArticleQuery articleId)) ?w1 = (Inl e', w')"
    by blast
  then have "annotate_getArticle env articleId attempts w
              = (Inr (Response 500), w' @ [Console_error (ErrorFetchingArticle e')])"
    by (subst annotate_getArticle.simps) (simp add: do_fetch_def)
  then show "\<exists>e w'. annotate_getArticle env articleId attempts w
              = (Inr (Response 500), w' @ [Console_error (ErrorFetchingArticle e)])" by blast
next
  let ?u = "uuidv4 env (uuid_count w)"
  let ?q = "CreateHighlight (Str ?u) (Str (take 8 ?u)) articleId annotation"
  let ?reply = "fetch_reply env (fetch_count w) ?q"
  assume f: "store_failure ?reply"
  show "\<exists>e w'. summary_addAnnotation env articleId annotation w
              = (Inr Undefined, w' @ [Console_error (ErrorAddingAnnotation articleId e)])"
  proof (cases ?reply)
    case NoResponse
    then show ?thesis
      by (simp add: summary_addAnnotation_def Let_def do_fetch_def)
  next
    case (HttpResponse status body)
    let ?w2 = "w @ [UuidV4 ?u, Fetch ?q, Console_log (ResponseLine ?reply)]"
    obtain r w3 where c: "createHighlight_result ?reply ?w2 = (r, w3)"
      by (cases "createHighlight_result ?reply ?w2")
    with store_failure_createHighlight [OF f, of ?w2] obtain e where "r = Inl e" by auto
    with c HttpResponse show ?thesis
      by (simp add: summary_addAnnotation_def Let_def do_fetch_def)
  qed
  let ?w2 = "w @ [Console_log (AddingAnnotation articleId annotation), UuidV4 ?u,
                  Console_log (AddAnnotationQuery ?q), Fetch ?q]"
  obtain r w3 where c: "annotate_createHighlight_result ?reply ?w2 = (r, w3)"
    by (cases "annotate_createHighlight_result ?reply ?w2")
  with store_failure_annotate_createHighlight [OF f, of ?w2] obtain e where "r = Inl e" by auto
  with c show "\<exists>e w'. annotate_addAnnotation env articleId annotation w
              = (Inr (Response 500), w' @ [Console_error (ErrorAddingAnnotation articleId e)])"
    by (simp add: annotate_addAnnotation_def Let_def do_fetch_def)
qed

theorem store_errors_swallowed_witness:
  "store_failure (fetch_reply failing_env (fetch_count []) (ArticleQuery (Str (utf16 ''abc123'')))) \<and>
   store_failure (fetch_reply failing_env (fetch_count [])
        (CreateHighlight (Str (uuidv4 failing_env (uuid_count [])))
           (Str (take 8 (uuidv4 failing_env (uuid_count []))))
           (Str (utf16 ''abc123'')) (Str (utf16 ''note'')))) \<and>
   fst (summary_getArticle failing_env (Str (utf16 ''abc123'')) 0 []) = Inr Undefined \<and>
   fst (annotate_getArticle failing_env (Str (utf16 ''abc123'')) 0 []) = Inr (Response 500) \<and>
   fst (summary_addAnnotation failing_env (Str (utf16 ''abc123'')) (Str (utf16 ''note'')) [])
     = Inr Undefined \<and>
   fst (annotate_addAnnotation failing_env (Str (utf16 ''abc123'')) (Str (utf16 ''note'')) [])
     = Inr (Response 500)"
proof -
  have a: "store_failure (fetch_reply failing_env (fetch_count []) (ArticleQuery (Str (utf16 ''abc123''))))"
    by (simp add: store_failure_def failing_env_def response_ok_def)
  have b: "store_failure (fetch_reply failing_env (fetch_count [])
        (CreateHighlight (Str (uuidv4 failing_env (uuid_count [])))
           (Str (take 8 (uuidv4 failing_env (uuid_count []))))
           (Str (utf16 ''abc123'')) (Str (utf16 ''note''))))"
    by (simp add: store_failure_def failing_env_def response_ok_def)
  show ?thesis
    using store_errors_swallowed
        [of failing_env "[]" "Str (utf16 ''abc123'')" 0 "Str (utf16 ''note'')"] a b
    by auto
qed

text \<open>
  C5 as stated fails in \<^verbatim>\<open>annotate.js\<close>: on a 500 reply its \<^verbatim>\<open>getArticle\<close> returns a
  \<^verbatim>\<open>Response\<close> object, not \<^verbatim>\<open>undefined\<close>.
\<close>

theorem annotate_getArticle_returns_response:
  "annotate_getArticle failing_env (Str (utf16 ''abc123'')) 0 []
     = (Inr (Response 500),
        [Console_log (GetArticleQuery (Str (utf16 ''abc123''))),
         Fetch (ArticleQuery (Str (utf16 ''abc123''))),
         Console_log (ResponseLine (HttpResponse 500 None)),
         Console_error (ErrorFetchingArticle (HttpError 500))]) \<and>
   Response 500 \<noteq> Undefined"
  by (subst annotate_getArticle.simps)
     (simp add: do_fetch_def annotate_article_data_def failing_env_def response_ok_def)

text \<open>
  C6 asks for exactly one annotation per invocation, posted between the fetch and the
  hand-off. The stage-1 handler of \<^verbatim>\<open>summary.js\<close>, run on an article-created event against the
  scenario's store, fetches the article, posts the stage's annotation and hands off, and
  then posts three more annotations, \<^verbatim>\<open>test 2\<close>, \<^verbatim>\<open>test 3\<close> and \<^verbatim>\<open>test 4\<close>, before it
  responds with status 200.
\<close>

theorem summary_handler_posts_four:
  "fst (summary_handler scenario_env (Some created_event) [])
     = Inr (HttpReply 200 (Obj [(utf16 ''id'', Str (uuidv4 scenario_env 0))])) \<and>
   requests (snd (summary_handler scenario_env (Some created_event) []))
     = [ArticleQuery (Str (utf16 ''abc123'')),
        ArticleQuery (Str (utf16 ''abc123'')),
        ArticleQuery (Str (utf16 ''abc123'')),
        CreateHighlight (Str (uuidv4 scenario_env 0)) (Str (utf16 ''0f8fad5b''))
          (Str (utf16 ''abc123'')) (Str (utf16 ''En summering av artikeln'')),
        Handoff actions_url
          (Obj [(utf16 ''articleId'', Str (utf16 ''abc123'')), (utf16 ''article'', Str (utf16 ''Body'')),
                (utf16 ''articleAnnotation'', Str [])]),
        CreateHighlight (Str (uuidv4 scenario_env 1)) (Str (utf16 ''0f8fad5b''))
          (Str (utf16 ''abc123'')) (Str (utf16 ''test 2'')),
        CreateHighlight (Str (uuidv4 scenario_env 2)) (Str (utf16 ''0f8fad5b''))
          (Str (utf16 ''abc123'')) (Str (utf16 ''test 3'')),
        CreateHighlight (Str (uuidv4 scenario_env 3)) (Str (utf16 ''0f8fad5b''))
          (Str (utf16 ''abc123'')) (Str (utf16 ''test 4''))]"
proof -
  have omni: "new_Omnivore scenario_env = Inr \<lparr>apiKey = utf16 ''key''\<rparr>"
    by (simp add: new_Omnivore_def scenario_env_def)
  have ai: "new_AI scenario_env = Inr scenario_ai"
    by (simp add: new_AI_def scenario_ai_def scenario_env_def)
  have next_stage: "post_next scenario_env url payload w = (Inr (HttpResponse 200 None), w @ [Fetch (Handoff url payload)])"
    for url payload w
    by (simp add: post_next_def do_fetch_def scenario_env_def)
  have page: "get_prop created_event (utf16 ''page'') = Inr (Obj [(utf16 ''id'', Str (utf16 ''abc123''))])"
    by (simp add: created_event_def)
  have ident: "get_prop (Obj [(utf16 ''id'', Str (utf16 ''abc123''))]) (utf16 ''id'') = Inr (Str (utf16 ''abc123''))"
    by simp
  have run: "summary_handler scenario_env (Some created_event) [] =
     (Inr (HttpReply 200 (Obj [(utf16 ''id'', Str (uuidv4 scenario_env 0))])),
      snd (summary_handler scenario_env (Some created_event) []))"
    by (simp add: summary_handler_def await_def read_body_def lift_def page ident omni ai
          scenario_getArticle scenario_addAnnotation next_stage del: utf16_Cons)
  have reqs: "requests (snd (summary_handler scenario_env (Some created_event) [])) =
      [ArticleQuery (Str (utf16 ''abc123'')),
        ArticleQuery (Str (utf16 ''abc123'')),
        ArticleQuery (Str (utf16 ''abc123'')),
        CreateHighlight (Str (uuidv4 scenario_env 0)) (Str (utf16 ''0f8fad5b''))
          (Str (utf16 ''abc123'')) (Str (utf16 ''En summering av artikeln'')),
        Handoff actions_url
          (Obj [(utf16 ''articleId'', Str (utf16 ''abc123'')), (utf16 ''article'', Str (utf16 ''Body'')),
                (utf16 ''articleAnnotation'', Str [])]),
        CreateHighlight (Str (uuidv4 scenario_env 1)) (Str (utf16 ''0f8fad5b''))
          (Str (utf16 ''abc123'')) (Str (utf16 ''test 2'')),
        CreateHighlight (Str (uuidv4 scenario_env 2)) (Str (utf16 ''0f8fad5b''))
          (Str (utf16 ''abc123'')) (Str (utf16 ''test 3'')),
        CreateHighlight (Str (uuidv4 scenario_env 3)) (Str (utf16 ''0f8fad5b''))
          (Str (utf16 ''abc123'')) (Str (utf16 ''test 4''))]"
    by (simp add: summary_handler_def await_def read_body_def lift_def page ident omni ai
          scenario_getArticle scenario_addAnnotation next_stage numeral_2_eq_2 numeral_3_eq_3
          del: utf16_Cons)
  from run reqs show ?thesis by (metis fst_conv)
qed




text \<open>
  C8. A stage-1 request (\<^verbatim>\<open>summary.js\<close>) whose body does not parse, or parses to a value
  without the \<^verbatim>\<open>page\<close> key, makes the handler reject with a TypeError at
  \<^verbatim>\<open>body.page\<close> or at \<^verbatim>\<open>pageCreated.id\<close>, before any request goes out; a body that does not
  parse is logged first, and nothing guards the dereference.
\<close>

theorem summary_handler_malformed_body:
  assumes "lacks_page req_json"
  shows "summary_handler env req_json w =
           (Inl TypeError,
            w @ (case req_json of None \<Rightarrow> [Console_error NoPayloadFound] | Some body \<Rightarrow> []))"
proof (cases req_json)
  case None
  then show ?thesis
    by (simp add: summary_handler_def await_def read_body_def lift_def)
next
  case (Some body)
  with assms have "get_prop body (utf16 ''page'') = Inl TypeError \<or>
                   get_prop body (utf16 ''page'') = Inr Undefined"
    by (cases body) (simp_all add: lacks_page_def del: utf16_Cons)
  with Some show ?thesis
    by (auto simp: summary_handler_def await_def read_body_def lift_def simp del: utf16_Cons)
qed

theorem summary_handler_malformed_body_witness:
  "lacks_page (Some (Obj [(utf16 ''foo'', Num 1)])) \<and> lacks_page None \<and>
   summary_handler scenario_env (Some (Obj [(utf16 ''foo'', Num 1)])) [] = (Inl TypeError, []) \<and>
   summary_handler scenario_env None [] = (Inl TypeError, [Console_error NoPayloadFound])"
proof -
  have a: "lacks_page (Some (Obj [(utf16 ''foo'', Num 1)]))" by (simp add: lacks_page_def)
  have b: "lacks_page None" by (simp add: lacks_page_def)
  show ?thesis
    using summary_handler_malformed_body [OF a, of scenario_env "[]"]
      summary_handler_malformed_body [OF b, of scenario_env "[]"] a b
    by simp
qed

text \<open>
  C9, as the code has it. In \<^verbatim>\<open>actions.js\<close> \<^verbatim>\<open>addAnnotation\<close> takes the identifier as a
  parameter and the handler passes none, so \<^verbatim>\<open>id.substring(0, 8)\<close> throws a TypeError before
  any request is issued. The expression stands before the \<^verbatim>\<open>try\<close> block: the error is not
  caught, the call rejects, and the handler rejects with it. Every invocation of the
  stage-2 handler ends in a rejection without a single request: no highlight, no
  hand-off to the next stage, no response of status 200.
\<close>

theorem actions_handler_raises:
  "actions_addAnnotation env articleId annotation Undefined w = (Inl TypeError, w) \<and>
   (\<exists>e evs. actions_handler env req_json w = (Inl e, w @ evs) \<and> filter is_fetch evs = []) \<and>
   (new_Omnivore env \<noteq> Inl ApiKeyError \<and> openai_configured env \<longrightarrow>
      actions_handler env (Some (Obj kvs)) w
        = (Inl TypeError,
           w @ [Console_log StartingActionAnnotation,
                Console_log (IdLine (case map_of kvs (utf16 ''id'') of
                                       None \<Rightarrow> Undefined | Some v \<Rightarrow> v))]))"
proof (intro conjI impI)
  show a: "actions_addAnnotation env articleId annotation Undefined w = (Inl TypeError, w)"
    for articleId annotation w
    by (simp add: actions_addAnnotation_def)
  show "\<exists>e evs. actions_handler env req_json w = (Inl e, w @ evs) \<and> filter is_fetch evs = []"
    by (cases req_json; cases "the req_json"; cases "new_Omnivore env"; cases "new_AI env")
       (simp_all add: actions_handler_def await_def read_body_def lift_def a del: utf16_Cons)
  assume "new_Omnivore env \<noteq> Inl ApiKeyError \<and> openai_configured env"
  then show "actions_handler env (Some (Obj kvs)) w
        = (Inl TypeError,
           w @ [Console_log StartingActionAnnotation,
                Console_log (IdLine (case map_of kvs (utf16 ''id'') of
                                       None \<Rightarrow> Undefined | Some v \<Rightarrow> v))])"
    by (cases "new_Omnivore env")
       (auto simp: actions_handler_def await_def read_body_def lift_def a new_AI_def new_Omnivore_def
             split: option.splits if_splits simp del: utf16_Cons)
qed

theorem actions_handler_raises_witness:
  "new_Omnivore scenario_env \<noteq> Inl ApiKeyError \<and> openai_configured scenario_env \<and>
   actions_handler scenario_env (Some handoff_body) []
     = (Inl TypeError, [Console_log StartingActionAnnotation, Console_log (IdLine (Str fixed_id))])"
proof -
  have c: "new_Omnivore scenario_env \<noteq> Inl ApiKeyError \<and> openai_configured scenario_env"
    by (simp add: new_Omnivore_def scenario_env_def)
  show ?thesis
    using actions_handler_raises [of scenario_env _ _ "[]" "Some handoff_body"
        "[(utf16 ''articleId'', Str (utf16 ''abc123'')), (utf16 ''article'', Str (utf16 ''Body'')),
          (utf16 ''articleAnnotation'', Str []), (utf16 ''id'', Str fixed_id)]"] c
    by (simp add: handoff_body_def)
qed

text \<open>
  C9 as stated fails: on a well-formed hand-off the handler rejects with the TypeError
  instead of responding, and the call of \<^verbatim>\<open>addAnnotation\<close> rejects instead of returning
  \<^verbatim>\<open>undefined\<close>; nothing is logged by a catch block.
\<close>

theorem actions_handler_rejects:
  "actions_handler scenario_env (Some handoff_body) []
     = (Inl TypeError, [Console_log StartingActionAnnotation, Console_log (IdLine (Str fixed_id))]) \<and>
   actions_addAnnotation scenario_env (Str (utf16 ''abc123''))
       (Str (utf16 ''En Action till artikeln'')) Undefined []
     = (Inl TypeError, [])"
  by (simp add: actions_handler_def await_def read_body_def lift_def actions_addAnnotation_def
        new_AI_def new_Omnivore_def scenario_env_def handoff_body_def)

text \<open>
  C10, as the code has it. \<^verbatim>\<open>getBestCompletionOutOf\<close> never reads the elements of its
  \<^verbatim>\<open>completions\<close> array; it uses the length and, through \<^verbatim>\<open>map\<close>, which slots are holes. Two
  arrays of equal length with their holes at the same indices, in particular two arrays
  without holes, give the same calls and the same result, in \<^verbatim>\<open>summary.js\<close> and in
  \<^verbatim>\<open>annotate.js\<close>.
\<close>

theorem completions_only_slots:
  assumes "map (\<lambda>slot. slot = None) cs1 = map (\<lambda>slot. slot = None) cs2"
  shows "summary_getBestCompletionOutOf this env prompt (Some cs1) articleContent w =
           summary_getBestCompletionOutOf this env prompt (Some cs2) articleContent w \<and>
         annotate_getBestCompletionOutOf this env prompt (Some cs1) articleContent w =
           annotate_getBestCompletionOutOf this env prompt (Some cs2) articleContent w"
proof -
  have "length (map (\<lambda>slot. slot = None) cs1) = length (map (\<lambda>slot. slot = None) cs2)"
    using assms by simp
  then have len: "length cs1 = length cs2" by simp
  show ?thesis
    by (simp add: summary_getBestCompletionOutOf_def getBestCompletionOutOf_def
          annotate_getBestCompletionOutOf_def promises_by_holes assms len)
qed

theorem completions_only_slots_witness:
  "map (\<lambda>slot. slot = None) [Some (Num 0), None, Some (Num 2)]
     = map (\<lambda>slot. slot = None) [Some (Str (utf16 ''x'')), None, Some Null] \<and>
   summary_getBestCompletionOutOf scenario_ai scenario_env (Str (utf16 ''Summarize''))
       (Some [Some (Num 0), None, Some (Num 2)]) (Str (utf16 ''some text'')) [] =
   summary_getBestCompletionOutOf scenario_ai scenario_env (Str (utf16 ''Summarize''))
       (Some [Some (Str (utf16 ''x'')), None, Some Null]) (Str (utf16 ''some text'')) [] \<and>
   annotate_getBestCompletionOutOf scenario_ai scenario_env (Str (utf16 ''Summarize''))
       (Some [Some (Num 0), None, Some (Num 2)]) (Str (utf16 ''some text'')) [] =
   annotate_getBestCompletionOutOf scenario_ai scenario_env (Str (utf16 ''Summarize''))
       (Some [Some (Str (utf16 ''x'')), None, Some Null]) (Str (utf16 ''some text'')) [] \<and>
   map (\<lambda>slot. slot = None) [Some (Num 0), Some (Num 1), Some (Num 2)]
     = map (\<lambda>slot. slot = None) [Some (Str (utf16 ''x'')), Some Null, Some Undefined] \<and>
   summary_getBestCompletionOutOf scenario_ai scenario_env (Str (utf16 ''Summarize''))
       (Some [Some (Num 0), Some (Num 1), Some (Num 2)]) (Str (utf16 ''some text'')) [] =
   summary_getBestCompletionOutOf scenario_ai scenario_env (Str (utf16 ''Summarize''))
       (Some [Some (Str (utf16 ''x'')), Some Null, Some Undefined]) (Str (utf16 ''some text'')) []"
proof -
  have a: "map (\<lambda>slot. slot = None) [Some (Num 0), None, Some (Num 2)]
     = map (\<lambda>slot. slot = None) [Some (Str (utf16 ''x'')), None, Some Null]"
    by simp
  have b: "map (\<lambda>slot. slot = None) [Some (Num 0), Some (Num 1), Some (Num 2)]
     = map (\<lambda>slot. slot = None) [Some (Str (utf16 ''x'')), Some Null, Some Undefined]"
    by simp
  show ?thesis
    using completions_only_slots [OF a, of scenario_ai scenario_env
            "Str (utf16 ''Summarize'')" "Str (utf16 ''some text'')" "[]"]
      completions_only_slots [OF b, of scenario_ai scenario_env
            "Str (utf16 ''Summarize'')" "Str (utf16 ''some text'')" "[]"]
      a b
    by simp
qed

text \<open>
  C10 as stated fails: \<^verbatim>\<open>[0, , 2]\<close> and \<^verbatim>\<open>[0, 1, 2]\<close> are non-empty arrays of length 3,
  and on the first \<^verbatim>\<open>map\<close> skips the hole: two initial calls instead of three, the joined
  text \<^verbatim>\<open>A\<close>, empty line, \<^verbatim>\<open>B\<close> instead of \<^verbatim>\<open>A\<close>, \<^verbatim>\<open>B\<close>, \<^verbatim>\<open>C\<close>, and another result.
\<close>

theorem sparse_array_skips_calls:
  "length [Some (Num 0), None, Some (Num 2)] = length [Some (Num 0), Some (Num 1), Some (Num 2)] \<and>
   summary_getBestCompletionOutOf scenario_ai scenario_env (Str (utf16 ''Summarize''))
       (Some [Some (Num 0), None, Some (Num 2)]) (Str (utf16 ''some text'')) []
     = (Inr (Str (utf16 ''C'')),
        [ChatCreate (Obj [(utf16 ''model'', Str (utf16 ''gpt-4o-mini''))])
           (Str (utf16 ''Summarize'')) (Str (utf16 ''some text'')),
         ChatCreate (Obj [(utf16 ''model'', Str (utf16 ''gpt-4o-mini''))])
           (Str (utf16 ''Summarize'')) (Str (utf16 ''some text'')),
         ChatCreate (Obj [(utf16 ''model'', Str (utf16 ''gpt-4o-mini''))])
           (Str summary_REFINEMENT_PROMPT)
           (Str (utf16 ''A'' @ [0x0A, 0x0A] @ utf16 ''B''))]) \<and>
   summary_getBestCompletionOutOf scenario_ai scenario_env (Str (utf16 ''Summarize''))
       (Some [Some (Num 0), Some (Num 1), Some (Num 2)]) (Str (utf16 ''some text'')) []
     = (Inr (Str (utf16 ''B-refined'')),
        [ChatCreate (Obj [(utf16 ''model'', Str (utf16 ''gpt-4o-mini''))])
           (Str (utf16 ''Summarize'')) (Str (utf16 ''some text'')),
         ChatCreate (Obj [(utf16 ''model'', Str (utf16 ''gpt-4o-mini''))])
           (Str (utf16 ''Summarize'')) (Str (utf16 ''some text'')),
         ChatCreate (Obj [(utf16 ''model'', Str (utf16 ''gpt-4o-mini''))])
           (Str (utf16 ''Summarize'')) (Str (utf16 ''some text'')),
         ChatCreate (Obj [(utf16 ''model'', Str (utf16 ''gpt-4o-mini''))])
           (Str summary_REFINEMENT_PROMPT)
           (Str (utf16 ''A'' @ [0x0A] @ utf16 ''B'' @ [0x0A] @ utf16 ''C''))])"
  by (simp add: summary_getBestCompletionOutOf_def getBestCompletionOutOf_def await_def
        scenario_getCompletion array_map_def element_promise_def array_join_def newline_def)

end
